theory Spec2Isabelle
  imports Complex_Main "HOL-Library.Sublist"
begin

section \<open>Data model of the language server (server/src/server.ts)\<close>

text \<open>
  Document text is a JavaScript string, a sequence of UTF-16 code units.  The only
  properties of a code unit that the server looks at are membership in the classes
  \<open>[A-Z]\<close> and \<open>\w\<close> of the regular expression, which are both sets of ASCII
  characters, so the text is modelled as a \<^typ>\<open>string\<close>; a code unit outside the
  eight-bit range behaves like any other character outside both classes.
\<close>

record Position =
  line :: nat
  character :: nat

record Range =
  range_start :: Position
  range_end :: Position

record Location =
  location_uri :: string
  location_range :: Range

record DiagnosticRelatedInformation =
  location :: Location
  related_message :: string

datatype DiagnosticSeverity = Error | Warning | Information | Hint

record Diagnostic =
  severity :: DiagnosticSeverity
  range :: Range
  message :: string
  source :: string
  relatedInformation :: "DiagnosticRelatedInformation list option"

text \<open>
  \<open>interface FV1LanguageServerSettings { maxNumberOfProblems: number }\<close>.  The
  settings come from the client as JSON, and the interface is not checked when the
  server runs.  A number that JSON can carry is finite, and a finite JavaScript number is
  a rational: the field is a \<^typ>\<open>rat\<close>, or \<open>None\<close> when the property is missing
  (\<open>undefined\<close>).  A configuration request can also be answered with \<open>null\<close>:
  where settings may be \<open>null\<close> their type is \<open>FV1LanguageServerSettings option\<close>
  and \<open>None\<close> is \<open>null\<close>.
\<close>

record FV1LanguageServerSettings =
  maxNumberOfProblems :: "rat option"

text \<open>
  A \<open>TextDocument\<close> of the library \<open>vscode-languageserver-textdocument\<close>: its
  \<open>uri\<close> and the result of \<open>getText()\<close>.  The library's \<open>positionAt\<close> is not part
  of the repository; it is a parameter \<open>positionAt\<close> of the model, a function of the
  document's text and an offset.
\<close>

record TextDocument =
  uri :: string
  getText :: string

section \<open>The regular expression \<open>/\b[A-Z]{2,}\b/g\<close>\<close>

definition in_A_Z :: "char \<Rightarrow> bool" where
  "in_A_Z c = (65 \<le> (of_char c :: nat) \<and> (of_char c :: nat) \<le> 90)"

text \<open>The class \<open>\w\<close>: \<open>[A-Za-z0-9_]\<close>.\<close>

definition wordCharacter :: "char \<Rightarrow> bool" where
  "wordCharacter c =
     (let n = (of_char c :: nat)
      in (65 \<le> n \<and> n \<le> 90) \<or> (97 \<le> n \<and> n \<le> 122) \<or> (48 \<le> n \<and> n \<le> 57) \<or> n = 95)"

text \<open>
  \<open>IsWordChar(e)\<close> of the ECMAScript specification: false at \<open>-1\<close> and at the input
  length, otherwise whether the character at \<open>e\<close> is a word character.
\<close>

definition IsWordChar :: "string \<Rightarrow> int \<Rightarrow> bool" where
  "IsWordChar Input e =
     (if e < 0 \<or> int (length Input) \<le> e then False else wordCharacter (Input ! nat e))"

text \<open>The assertion \<open>\b\<close> at position \<open>e\<close>.\<close>

definition wordBoundary :: "string \<Rightarrow> nat \<Rightarrow> bool" where
  "wordBoundary Input e = (IsWordChar Input (int e - 1) \<noteq> IsWordChar Input (int e))"

text \<open>The longest run of \<open>[A-Z]\<close> at position \<open>i\<close>: what the greedy quantifier takes first.\<close>

definition upperRun :: "string \<Rightarrow> nat \<Rightarrow> nat" where
  "upperRun Input i = length (takeWhile in_A_Z (drop i Input))"

text \<open>
  The quantifier \<open>{2,}\<close> followed by \<open>\b\<close>: the continuation is tried after \<open>n\<close>
  characters, then after one less, down to two (backtracking).  The result is the end
  index of the match.
\<close>

fun backtrack :: "string \<Rightarrow> nat \<Rightarrow> nat \<Rightarrow> nat option" where
  "backtrack Input i n =
     (if n < 2 then None
      else if wordBoundary Input (i + n) then Some (i + n)
      else backtrack Input i (n - 1))"

declare backtrack.simps [simp del]

text \<open>The pattern tried at the one position \<open>i\<close>.\<close>

definition matchAt :: "string \<Rightarrow> nat \<Rightarrow> nat option" where
  "matchAt Input i =
     (if wordBoundary Input i then backtrack Input i (upperRun Input i) else None)"

text \<open>A \<open>RegExpExecArray\<close>: \<open>m.index\<close> and \<open>m[0]\<close>.\<close>

record RegExpExecArray =
  index :: nat
  matched :: string

text \<open>
  \<open>pattern.exec(text)\<close> for a global pattern whose \<open>lastIndex\<close> is the second
  argument: the result and the new \<open>lastIndex\<close>.  The search moves right one position
  at a time; past the end of the input it fails and resets \<open>lastIndex\<close> to 0.
\<close>

function exec :: "string \<Rightarrow> nat \<Rightarrow> RegExpExecArray option \<times> nat" where
  "exec Input lastIndex =
     (if length Input < lastIndex then (None, 0)
      else case matchAt Input lastIndex of
             Some e \<Rightarrow>
               (Some \<lparr>index = lastIndex, matched = take (e - lastIndex) (drop lastIndex Input)\<rparr>, e)
           | None \<Rightarrow> exec Input (lastIndex + 1))"
  by pat_completeness auto
termination
  by (relation "measure (\<lambda>(Input, lastIndex). length Input + 1 - lastIndex)") auto

declare exec.simps [simp del]

section \<open>validateTextDocument: the scan\<close>

text \<open>The diagnostic built in the loop body for the match \<open>m\<close>.\<close>

definition makeDiagnostic ::
  "(string \<Rightarrow> nat \<Rightarrow> Position) \<Rightarrow> bool \<Rightarrow> TextDocument \<Rightarrow> RegExpExecArray \<Rightarrow> Diagnostic" where
  "makeDiagnostic positionAt hasRelated textDocument m =
     (let r = \<lparr>range_start = positionAt (getText textDocument) (index m),
               range_end = positionAt (getText textDocument) (index m + length (matched m))\<rparr>
      in \<lparr>severity = Warning,
          range = r,
          message = matched m @ '' is all uppercase.'',
          source = ''ex'',
          relatedInformation =
            (if hasRelated then
               Some [\<lparr>location = \<lparr>location_uri = uri textDocument, location_range = r\<rparr>,
                      related_message = ''Spelling matters''\<rparr>,
                     \<lparr>location = \<lparr>location_uri = uri textDocument, location_range = r\<rparr>,
                      related_message = ''Particularly for names''\<rparr>]
             else None)\<rparr>)"

text \<open>What a handler can throw, and what a request to the client can be rejected with.\<close>

datatype error = TypeError | ResponseError string

text \<open>
  \<open>problems < settings.maxNumberOfProblems\<close> for the counter \<open>problems\<close>, an integer:
  a comparison with \<open>undefined\<close> is false.
\<close>

definition belowLimit :: "int \<Rightarrow> rat option \<Rightarrow> bool" where
  "belowLimit problems limit = (case limit of None \<Rightarrow> False | Some r \<Rightarrow> of_int problems < r)"

text \<open>
  \<open>while ((m = pattern.exec(text)) && problems < settings.maxNumberOfProblems)\<close>: the
  pattern is matched first; only when there is a match is the limit read, which throws a
  \<open>TypeError\<close> when \<open>settings\<close> is \<open>null\<close>, and tested.  The state of the loop is
  the pattern's \<open>lastIndex\<close>, the counter \<open>problems\<close> and the array \<open>diagnostics\<close>.
\<close>

function scan ::
  "(string \<Rightarrow> nat \<Rightarrow> Position) \<Rightarrow> bool \<Rightarrow> TextDocument \<Rightarrow> FV1LanguageServerSettings option
     \<Rightarrow> nat \<Rightarrow> int \<Rightarrow> Diagnostic list \<Rightarrow> error + Diagnostic list" where
  "scan positionAt hasRelated textDocument settings lastIndex problems diagnostics =
     (case exec (getText textDocument) lastIndex of
        (None, _) \<Rightarrow> Inr diagnostics
      | (Some m, lastIndex') \<Rightarrow>
          (case settings of
             None \<Rightarrow> Inl TypeError
           | Some v \<Rightarrow>
               if belowLimit problems (maxNumberOfProblems v)
               then scan positionAt hasRelated textDocument settings lastIndex' (problems + 1)
                      (diagnostics @ [makeDiagnostic positionAt hasRelated textDocument m])
               else Inr diagnostics))"
  by pat_completeness auto
termination
proof (relation "measure (\<lambda>(positionAt, hasRelated, textDocument, settings, lastIndex, problems,
        diagnostics).
        case settings of
          None \<Rightarrow> 0
        | Some v \<Rightarrow>
            (case maxNumberOfProblems v of
               None \<Rightarrow> 0
             | Some r \<Rightarrow> nat \<lceil>r - of_int problems\<rceil>))")
  show "wf (measure (\<lambda>(positionAt, hasRelated, textDocument, settings, lastIndex, problems,
        diagnostics).
        case settings of
          None \<Rightarrow> 0
        | Some v \<Rightarrow>
            (case maxNumberOfProblems v of
               None \<Rightarrow> 0
             | Some r \<Rightarrow> nat \<lceil>r - of_int problems\<rceil>)))"
    by simp
next
  fix positionAt :: "string \<Rightarrow> nat \<Rightarrow> Position" and hasRelated :: bool
    and textDocument :: TextDocument and settings :: "FV1LanguageServerSettings option"
    and lastIndex :: nat and problems :: int and diagnostics :: "Diagnostic list"
    and x :: "RegExpExecArray option \<times> nat" and x1 :: "RegExpExecArray option"
    and lastIndex' :: nat and m :: RegExpExecArray and v :: FV1LanguageServerSettings
  assume "settings = Some v" and b: "belowLimit problems (maxNumberOfProblems v)"
  from b obtain r where r: "maxNumberOfProblems v = Some r" "of_int problems < r"
    by (auto simp add: belowLimit_def split: option.splits)
  have "r - of_int (problems + 1) = (r - of_int problems) - 1"
    by simp
  then have "\<lceil>r - of_int (problems + 1)\<rceil> = \<lceil>r - of_int problems\<rceil> - 1"
    by (simp only: ceiling_diff_one)
  moreover have "0 < \<lceil>r - of_int problems\<rceil>"
    using r(2) by (simp add: ceiling_less_iff less_ceiling_iff)
  ultimately have "nat \<lceil>r - of_int (problems + 1)\<rceil> < nat \<lceil>r - of_int problems\<rceil>"
    by linarith
  then show "((positionAt, hasRelated, textDocument, settings, lastIndex', problems + 1,
               diagnostics @ [makeDiagnostic positionAt hasRelated textDocument m]),
              (positionAt, hasRelated, textDocument, settings, lastIndex, problems, diagnostics))
             \<in> measure (\<lambda>(positionAt, hasRelated, textDocument, settings, lastIndex, problems,
        diagnostics).
        case settings of
          None \<Rightarrow> 0
        | Some v \<Rightarrow>
            (case maxNumberOfProblems v of
               None \<Rightarrow> 0
             | Some r \<Rightarrow> nat \<lceil>r - of_int problems\<rceil>))"
    using \<open>settings = Some v\<close> r(1) by simp
qed

declare scan.simps [simp del]

text \<open>
  The diagnostics of one pass: a fresh pattern (\<open>lastIndex = 0\<close>), \<open>problems = 0\<close> and
  an empty array.
\<close>

definition computeDiagnostics ::
  "(string \<Rightarrow> nat \<Rightarrow> Position) \<Rightarrow> bool \<Rightarrow> TextDocument \<Rightarrow> FV1LanguageServerSettings option
     \<Rightarrow> error + Diagnostic list" where
  "computeDiagnostics positionAt hasRelated textDocument settings =
     scan positionAt hasRelated textDocument settings 0 0 []"

section \<open>Session state and the settings cache\<close>

text \<open>
  A \<open>Thenable\<close> of settings is either \<open>Promise.resolve(v)\<close>, already resolved with
  \<open>v\<close>, or the promise returned by \<open>connection.workspace.getConfiguration\<close>, named by
  the number of the request it belongs to: the request sent first is number 0.
\<close>

datatype 'a Thenable = Resolved 'a | ConfigurationRequest nat

text \<open>
  The module's variables (the three capability flags, \<open>globalSettings\<close> and the map
  \<open>documentSettings\<close>), the documents held by the \<open>TextDocuments\<close> manager
  (\<open>documents.all()\<close>), and what has gone out over the connection: the configuration
  requests (\<open>scopeUri\<close>, \<open>section\<close>) and the \<open>sendDiagnostics\<close> notifications
  (\<open>uri\<close>, \<open>diagnostics\<close>), oldest first, the registration for configuration changes
  and the lines written to the console.
\<close>

record server =
  hasConfigurationCapability :: bool
  hasWorkspaceFolderCapability :: bool
  hasDiagnosticRelatedInformationCapability :: bool
  globalSettings :: FV1LanguageServerSettings
  documentSettings :: "string \<rightharpoonup> FV1LanguageServerSettings option Thenable"
  documents :: "TextDocument list"
  getConfiguration :: "(string \<times> string) list"
  sendDiagnostics :: "(string \<times> Diagnostic list) list"
  registered :: bool
  console :: "string list"

definition defaultSettings :: FV1LanguageServerSettings where
  "defaultSettings = \<lparr>maxNumberOfProblems = Some 1000\<rparr>"

text \<open>
  The default of \<open>fv1AssemblyLanguageServer.maxNumberOfProblems\<close> that package.json
  declares under \<open>contributes.configuration\<close>.
\<close>

definition declaredDefault_maxNumberOfProblems :: rat where
  "declaredDefault_maxNumberOfProblems = 100"

text \<open>The state when the module has been loaded: \<open>globalSettings = defaultSettings\<close>.\<close>

definition initialServer :: server where
  "initialServer =
     \<lparr>hasConfigurationCapability = False,
      hasWorkspaceFolderCapability = False,
      hasDiagnosticRelatedInformationCapability = False,
      globalSettings = defaultSettings,
      documentSettings = Map.empty,
      documents = [],
      getConfiguration = [],
      sendDiagnostics = [],
      registered = False,
      console = []\<rparr>"

subsection \<open>onInitialize, onInitialized\<close>

text \<open>
  The client's capability descriptor, as far as the server reads it.  Every field is
  optional; an absent field is \<open>None\<close>, and \<open>!!x\<close> holds for \<open>Some True\<close> only.
\<close>

record WorkspaceClientCapabilities =
  configuration :: "bool option"
  workspaceFolders :: "bool option"

record PublishDiagnosticsClientCapabilities =
  relatedInformationSupport :: "bool option"

record TextDocumentClientCapabilities =
  publishDiagnostics :: "PublishDiagnosticsClientCapabilities option"

record ClientCapabilities =
  workspace_capabilities :: "WorkspaceClientCapabilities option"
  textDocument_capabilities :: "TextDocumentClientCapabilities option"

datatype TextDocumentSyncKind = SyncNone | Full | Incremental

record InitializeResult =
  textDocumentSync :: TextDocumentSyncKind
  resolveProvider :: bool
  workspaceFoldersSupported :: "bool option"

definition onInitialize :: "server \<Rightarrow> ClientCapabilities \<Rightarrow> InitializeResult \<times> server" where
  "onInitialize s capabilities =
     (let hasConfiguration =
            (case workspace_capabilities capabilities of None \<Rightarrow> False | Some w \<Rightarrow> configuration w = Some True);
          hasWorkspaceFolder =
            (case workspace_capabilities capabilities of None \<Rightarrow> False | Some w \<Rightarrow> workspaceFolders w = Some True);
          hasRelated =
            (case textDocument_capabilities capabilities of
               None \<Rightarrow> False
             | Some t \<Rightarrow>
                 (case publishDiagnostics t of
                    None \<Rightarrow> False
                  | Some p \<Rightarrow> relatedInformationSupport p = Some True))
      in (\<lparr>textDocumentSync = Incremental,
           resolveProvider = True,
           workspaceFoldersSupported = (if hasWorkspaceFolder then Some True else None)\<rparr>,
          s\<lparr>hasConfigurationCapability := hasConfiguration,
            hasWorkspaceFolderCapability := hasWorkspaceFolder,
            hasDiagnosticRelatedInformationCapability := hasRelated\<rparr>))"

definition onInitialized :: "server \<Rightarrow> server" where
  "onInitialized s = (if hasConfigurationCapability s then s\<lparr>registered := True\<rparr> else s)"

definition onDidChangeWatchedFiles :: "server \<Rightarrow> server" where
  "onDidChangeWatchedFiles s = s\<lparr>console := console s @ [''We received a file change event'']\<rparr>"

subsection \<open>getDocumentSettings, onDidClose\<close>

text \<open>
  A promise is an object and so truthy: \<open>!result\<close> holds exactly when the map has no
  entry for the resource.  The new promise is stored before the function returns.
\<close>

definition getDocumentSettings ::
  "server \<Rightarrow> string \<Rightarrow> FV1LanguageServerSettings option Thenable \<times> server" where
  "getDocumentSettings s resource =
     (if \<not> hasConfigurationCapability s then (Resolved (Some (globalSettings s)), s)
      else case documentSettings s resource of
             Some result \<Rightarrow> (result, s)
           | None \<Rightarrow>
               (let result = ConfigurationRequest (length (getConfiguration s))
                in (result,
                    s\<lparr>getConfiguration := getConfiguration s @ [(resource, ''fv1LanguageServer'')],
                      documentSettings := (documentSettings s)(resource \<mapsto> result)\<rparr>)))"

definition onDidClose :: "server \<Rightarrow> TextDocument \<Rightarrow> server" where
  "onDidClose s document = s\<lparr>documentSettings := (documentSettings s)(uri document := None)\<rparr>"

section \<open>validateTextDocument\<close>

text \<open>
  The function is asynchronous.  Up to its \<open>await\<close> it calls
  \<open>getDocumentSettings\<close> (\<open>validateTextDocument_call\<close>); it goes on when the promise
  has settled (\<open>validateTextDocument_resume\<close>).  A rejection is thrown at the
  \<open>await\<close>, so the function's own promise rejects and nothing after the \<open>await\<close> runs.
  A value, which may be \<open>null\<close>, is the \<open>settings\<close> of the scan; when the scan
  throws, the function's promise rejects as well and nothing is sent; otherwise the
  result of the scan is sent.
\<close>

definition validateTextDocument_call ::
  "server \<Rightarrow> TextDocument \<Rightarrow> FV1LanguageServerSettings option Thenable \<times> server" where
  "validateTextDocument_call s textDocument = getDocumentSettings s (uri textDocument)"

definition validateTextDocument_resume ::
  "(string \<Rightarrow> nat \<Rightarrow> Position) \<Rightarrow> server \<Rightarrow> TextDocument
     \<Rightarrow> error + FV1LanguageServerSettings option \<Rightarrow> (error + unit) \<times> server" where
  "validateTextDocument_resume positionAt s textDocument outcome =
     (case outcome of
        Inl e \<Rightarrow> (Inl e, s)
      | Inr settings \<Rightarrow>
          (case computeDiagnostics positionAt (hasDiagnosticRelatedInformationCapability s)
                  textDocument settings of
             Inl e \<Rightarrow> (Inl e, s)
           | Inr diagnostics \<Rightarrow>
               (Inr (),
                s\<lparr>sendDiagnostics := sendDiagnostics s @ [(uri textDocument, diagnostics)]\<rparr>)))"

text \<open>
  How a promise settles.  The client's answers are \<open>replies\<close>: for the request with
  number \<open>n\<close>, \<open>Some (Inr v)\<close> is a result, \<open>Some (Inl e)\<close> an error, and \<open>None\<close>
  no answer at all.
\<close>

definition settle ::
  "(nat \<Rightarrow> (error + 'a) option) \<Rightarrow> 'a Thenable \<Rightarrow> (error + 'a) option" where
  "settle replies t = (case t of Resolved v \<Rightarrow> Some (Inr v) | ConfigurationRequest n \<Rightarrow> replies n)"

text \<open>
  One whole pass: \<open>None\<close> when the promise never settles (the pass stays suspended),
  otherwise how the pass ends.
\<close>

definition validateTextDocument ::
  "(string \<Rightarrow> nat \<Rightarrow> Position) \<Rightarrow> (nat \<Rightarrow> (error + FV1LanguageServerSettings option) option) \<Rightarrow> server
     \<Rightarrow> TextDocument \<Rightarrow> (error + unit) option \<times> server" where
  "validateTextDocument positionAt replies s textDocument =
     (let (t, s') = validateTextDocument_call s textDocument
      in case settle replies t of
           None \<Rightarrow> (None, s')
         | Some outcome \<Rightarrow>
             (let (r, s'') = validateTextDocument_resume positionAt s' textDocument outcome
              in (Some r, s'')))"

text \<open>The diagnostics the client shows for a document: those of the last notification.\<close>

definition displayed :: "server \<Rightarrow> string \<Rightarrow> Diagnostic list option" where
  "displayed s u = map_of (rev (sendDiagnostics s)) u"

section \<open>onDidChangeConfiguration\<close>

text \<open>
  The notification's \<open>settings\<close> is any value: \<open>None\<close> is \<open>null\<close> or \<open>undefined\<close>,
  on which the property access \<open>change.settings.fv1LanguageServer\<close> throws; of an
  object the model keeps the property \<open>fv1LanguageServer\<close>, \<open>None\<close> when it is absent
  (or falsy), so that \<open>||\<close> takes \<open>defaultSettings\<close>.  What \<open>globalSettings\<close>
  is assigned is therefore never \<open>null\<close>.
\<close>

record ConfigurationPayload =
  fv1LanguageServer :: "FV1LanguageServerSettings option"

record DidChangeConfigurationParams =
  change_settings :: "ConfigurationPayload option"

text \<open>The \<open>if\<close> statement of the handler.\<close>

definition applyConfigurationChange :: "server \<Rightarrow> DidChangeConfigurationParams \<Rightarrow> error + server" where
  "applyConfigurationChange s change =
     (if hasConfigurationCapability s then Inr (s\<lparr>documentSettings := Map.empty\<rparr>)
      else case change_settings change of
             None \<Rightarrow> Inl TypeError
           | Some payload \<Rightarrow>
               Inr (s\<lparr>globalSettings :=
                         (case fv1LanguageServer payload of
                            Some v \<Rightarrow> v
                          | None \<Rightarrow> defaultSettings)\<rparr>))"

text \<open>
  \<open>documents.all().forEach(validateTextDocument)\<close>: every call runs up to its
  \<open>await\<close> and returns; the result is the list of suspended passes.
\<close>

fun forEach_validateTextDocument ::
  "server \<Rightarrow> TextDocument list
     \<Rightarrow> (TextDocument \<times> FV1LanguageServerSettings option Thenable) list \<times> server" where
  "forEach_validateTextDocument s [] = ([], s)"
| "forEach_validateTextDocument s (d # ds) =
     (let (t, s') = validateTextDocument_call s d;
          (ps, s'') = forEach_validateTextDocument s' ds
      in ((d, t) # ps, s''))"

definition onDidChangeConfiguration ::
  "server \<Rightarrow> DidChangeConfigurationParams
     \<Rightarrow> (error + (TextDocument \<times> FV1LanguageServerSettings option Thenable) list) \<times> server" where
  "onDidChangeConfiguration s change =
     (case applyConfigurationChange s change of
        Inl e \<Rightarrow> (Inl e, s)
      | Inr s' \<Rightarrow>
          (let (ps, s'') = forEach_validateTextDocument s' (documents s') in (Inr ps, s'')))"

text \<open>The suspended passes go on in order, each when its promise has settled.\<close>

fun resumeAll ::
  "(string \<Rightarrow> nat \<Rightarrow> Position) \<Rightarrow> (nat \<Rightarrow> (error + FV1LanguageServerSettings option) option) \<Rightarrow> server
     \<Rightarrow> (TextDocument \<times> FV1LanguageServerSettings option Thenable) list \<Rightarrow> server" where
  "resumeAll positionAt replies s [] = s"
| "resumeAll positionAt replies s ((d, t) # ps) =
     (case settle replies t of
        None \<Rightarrow> resumeAll positionAt replies s ps
      | Some outcome \<Rightarrow>
          resumeAll positionAt replies (snd (validateTextDocument_resume positionAt s d outcome)) ps)"

section \<open>Completion\<close>

datatype CompletionItemKind =
  Text | Method | Function | Constructor | Field | Variable | Class | Interface | Module
  | Property | Unit | Value | Enum | Keyword | Snippet | Color | File | Reference | Folder
  | EnumMember | Constant | Struct | Event | Operator | TypeParameter

datatype MarkupKind = PlainTextKind | Markdown

text \<open>\<open>documentation?: string | MarkupContent\<close>.\<close>

datatype Documentation = PlainText string | MarkupContent MarkupKind string

text \<open>\<open>data?: LSPAny\<close>, a JSON value; \<open>item.data === 1\<close> holds for the number 1 only.\<close>

datatype LSPAny =
  LSPNull | LSPBoolean bool | LSPNumber int | LSPString string
  | LSPArray "LSPAny list" | LSPObject "(string \<times> LSPAny) list"

text \<open>
  A \<open>CompletionItem\<close>: the properties the server writes or reads; every other
  property is in the record's extension, which no handler touches.
\<close>

record CompletionItem =
  label :: string
  documentation :: "Documentation option"
  detail :: "string option"
  kind :: "CompletionItemKind option"
  data :: "LSPAny option"

record TextDocumentPositionParams =
  params_uri :: string
  params_position :: Position

definition onCompletion :: "TextDocumentPositionParams \<Rightarrow> CompletionItem list" where
  "onCompletion textDocumentPosition =
    [
     \<lparr>label = ''EQU'',
       documentation = Some (PlainText ''Equate a value to a label reference''),
       detail = Some (''Usage:\<newline>''
            @ [CHR 0x09, CHR 0x09, CHR 0x09, CHR 0x09, CHR 0x09] @ ''equ krt 0.86 ;equate the label krt to the value of 0.86\<newline>''
            @ [CHR 0x09, CHR 0x09, CHR 0x09, CHR 0x09, CHR 0x09] @ ''equ'' @ [CHR 0x09] @ ''sgn'' @ [CHR 0x09] @ ''-1'' @ [CHR 0x09] @ '';equate the label sgn to the value of -1\<newline>''
            @ [CHR 0x09, CHR 0x09, CHR 0x09, CHR 0x09, CHR 0x09] @ ''equ'' @ [CHR 0x09] @ ''a'' @ [CHR 0x09] @ ''reg0'' @ [CHR 0x09] @ '';equate the label a to represent register 0''),
       kind = Some Keyword,
       data = None\<rparr>,
     \<lparr>label = ''MEM'',
       documentation = Some (PlainText ''Define the length of delay memory elements and associate an address label.''),
       detail = Some (''Usage: mem del1 1000 ;assign 1000 delay memory locations to the label del1''),
       kind = Some Keyword,
       data = None\<rparr>,
     \<lparr>label = ''RDA'',
       documentation = Some (PlainText ''Read delay memory times coefficient and add to accumulator.''),
       detail = Some (''Usage: rda memaddress,coefficient''),
       kind = Some Keyword,
       data = None\<rparr>,
     \<lparr>label = ''RMPA'',
       documentation = Some (PlainText ''Read delay memory from addr_ptr location, multiply by coefficient and add to accumulator''),
       detail = Some (''Usage: rmpa coefficient''),
       kind = Some Keyword,
       data = None\<rparr>,
     \<lparr>label = ''WRA'',
       documentation = Some (PlainText ''Write ACC to delay memory location and multiply ACC by coefficient''),
       detail = Some (''Usage: wra memaddrs,coefficient''),
       kind = Some Keyword,
       data = None\<rparr>,
     \<lparr>label = ''WRAP'',
       documentation = Some (PlainText ''Write delay memory, multiply written value by the coefficient, add to LR register and load ACC with result.''),
       detail = Some (''Usage: wrap memaddrs,coefficient''),
       kind = Some Keyword,
       data = None\<rparr>,
     \<lparr>label = ''RDAX'',
       documentation = Some (PlainText ''Read register value, multiply by coefficient and add to ACC.''),
       detail = Some (''Usage: rdax reg0,0.2''),
       kind = Some Keyword,
       data = None\<rparr>,
     \<lparr>label = ''RDFX'',
       documentation = Some (PlainText ''Subtract register contents from ACC, multiply by coefficient, add register contents and load to ACC.''),
       detail = Some (''Usage: rdfx reg0,0.23''),
       kind = Some Keyword,
       data = None\<rparr>,
     \<lparr>label = ''WRAX'',
       documentation = Some (PlainText ''Write ACC to register, multiply ACC by coefficient''),
       detail = Some (''Usage: wrax reg1,0''),
       kind = Some Keyword,
       data = None\<rparr>,
     \<lparr>label = ''WRHX'',
       documentation = Some (PlainText ''Write ACC to register, multiply ACC by coefficient, add PACC and load result to ACC''),
       detail = Some (''Usage: wrhx reg2,-0.5''),
       kind = Some Keyword,
       data = None\<rparr>,
     \<lparr>label = ''WRLX'',
       documentation = Some (PlainText ''Write ACC to the register, subtract ACC from PACC, multiply result by the coefficient, then add PACC and load result to ACC.''),
       detail = Some (''Usage: wrlx reg6,kshlf''),
       kind = Some Keyword,
       data = None\<rparr>,
     \<lparr>label = ''MAXX'',
       documentation = Some (PlainText ''Load the maximum of the absolute value of the register times the coefficient or the absolute value of ACC to ACC.''),
       detail = Some (''Usage: maxx reg2,0.5''),
       kind = Some Keyword,
       data = None\<rparr>,
     \<lparr>label = ''ABSA'',
       documentation = Some (PlainText ''Changes the ACC contents to absolute value of ACC''),
       detail = None,
       kind = Some Keyword,
       data = None\<rparr>,
     \<lparr>label = ''MULX'',
       documentation = Some (PlainText ''Load the accumulator with the product of ACC and a register.''),
       detail = Some (''Usage: mulx reg0''),
       kind = Some Keyword,
       data = None\<rparr>,
     \<lparr>label = ''LOG'',
       documentation = Some (PlainText ''Take the LOG base 2 of the absolute value of the accumulator, divide result by 16, multiply the result by the coefficient, add a constant and load to ACC.''),
       detail = Some (''Usage: log 1.5,-0.3''),
       kind = Some Keyword,
       data = None\<rparr>,
     \<lparr>label = ''EXP'',
       documentation = Some (PlainText ''Raise 2 to the power of the accumulator*16, multiply by coefficient and add to a constant, loading the result to ACC.''),
       detail = Some (''Usage: exp 0.8,0''),
       kind = Some Keyword,
       data = None\<rparr>,
     \<lparr>label = ''SOF'',
       documentation = Some (PlainText ''Multiply ACC by the coefficient value and add a constant (Scale and Offset)''),
       detail = Some (''Usage: SOF 1.5,-0.3''),
       kind = Some Keyword,
       data = None\<rparr>,
     \<lparr>label = ''AND'',
       documentation = Some (PlainText ''And ACC with immediate mask''),
       detail = Some (''Usage: and %011111000000000000000000''),
       kind = Some Keyword,
       data = None\<rparr>,
     \<lparr>label = ''OR'',
       documentation = Some (PlainText ''Or ACC with immediate mask''),
       detail = Some (''Usage: or %011111000000000000000000''),
       kind = Some Keyword,
       data = None\<rparr>,
     \<lparr>label = ''XOR'',
       documentation = Some (PlainText ''Xor ACC with immediate mask''),
       detail = Some (''Usage: xor %011111000000000000000000''),
       kind = Some Keyword,
       data = None\<rparr>,
     \<lparr>label = ''SKP'',
       documentation = Some (PlainText ''Skip N instructions based on condition''),
       detail = Some (''Usage: skp zro,2 ;skip ahead 2 instructions if accumulator is zero.''),
       kind = Some Keyword,
       data = None\<rparr>,
     \<lparr>label = ''WLDS'',
       documentation = Some (PlainText ''Load SIN/COS generator with initial conditions''),
       detail = Some (''Usage: wlds sin0,freq,amp ;load the SIN/COS0 generator with freq and amp variables''),
       kind = Some Keyword,
       data = None\<rparr>,
     \<lparr>label = ''WLDR'',
       documentation = Some (PlainText ''Load RAMP generator with initial conditions''),
       detail = Some (''Usage: wldr rmp0,freq,amp ;load the RAMP0 generator with freq and amp variables''),
       kind = Some Keyword,
       data = None\<rparr>,
     \<lparr>label = ''JAM'',
       documentation = Some (PlainText (''When executed, will force a selected RAMP generator to it'' @ [CHR 0x27] @ ''s starting condition'')),
       detail = Some (''Usage: jam 0''),
       kind = Some Keyword,
       data = None\<rparr>,
     \<lparr>label = ''CHO'',
       documentation = Some (PlainText ''General operation for reading delay memory from an LFO output as both a memory pointer and an interpolation coefficient.''),
       detail = Some (''Usage: cho rda,sin0, SIN | REG ,del1+100 ;read del1+100+(sine of SIN/COS0 value) also, register LFO values.''),
       kind = Some Keyword,
       data = None\<rparr>,
     \<lparr>label = ''NOP'',
       documentation = Some (PlainText ''No operation''),
       detail = None,
       kind = Some Keyword,
       data = None\<rparr>,
     \<lparr>label = ''NOT'',
       documentation = Some (PlainText ''Change sign of ACC value''),
       detail = None,
       kind = Some Keyword,
       data = None\<rparr>,
     \<lparr>label = ''CLR'',
       documentation = Some (PlainText ''Clear ACC''),
       detail = None,
       kind = Some Keyword,
       data = None\<rparr>
    ]"

text \<open>The handler assigns to the item it was given and returns it.\<close>

definition onCompletionResolve :: "'a CompletionItem_scheme \<Rightarrow> 'a CompletionItem_scheme" where
  "onCompletionResolve item =
     (if data item = Some (LSPNumber 1)
      then item\<lparr>detail := Some ''TypeScript details'',
                documentation := Some (PlainText ''TypeScript documentation'')\<rparr>
      else if data item = Some (LSPNumber 2)
      then item\<lparr>detail := Some ''JavaScript details'',
                documentation := Some (PlainText ''JavaScript documentation'')\<rparr>
      else item)"

section \<open>Runs of the server\<close>

text \<open>
  The \<open>TextDocuments\<close> manager of the library keeps the open documents by URI: a
  document that is opened, or whose content changes, is stored and
  \<open>onDidChangeContent\<close> is called; a document that is closed is removed and
  \<open>onDidClose\<close> is called.
\<close>

definition setDocument :: "TextDocument list \<Rightarrow> TextDocument \<Rightarrow> TextDocument list" where
  "setDocument ds d =
     (if uri d \<in> uri ` set ds then map (\<lambda>x. if uri x = uri d then d else x) ds else ds @ [d])"

datatype notification =
  Initialize ClientCapabilities
  | Initialized
  | DidChangeConfiguration DidChangeConfigurationParams
  | DidChangeContent TextDocument
  | DidClose TextDocument
  | DidChangeWatchedFiles

text \<open>
  One notification handled.  Every validation pass it starts is run to its end (or
  left suspended, when its promise never settles) before the next notification:
  passes that overlap in time are not part of the model.
\<close>

fun handle ::
  "(string \<Rightarrow> nat \<Rightarrow> Position) \<Rightarrow> (nat \<Rightarrow> (error + FV1LanguageServerSettings option) option) \<Rightarrow> server
     \<Rightarrow> notification \<Rightarrow> server" where
  "handle positionAt replies s (Initialize capabilities) = snd (onInitialize s capabilities)"
| "handle positionAt replies s Initialized = onInitialized s"
| "handle positionAt replies s (DidChangeConfiguration change) =
     (case onDidChangeConfiguration s change of
        (Inl e, s') \<Rightarrow> s'
      | (Inr ps, s') \<Rightarrow> resumeAll positionAt replies s' ps)"
| "handle positionAt replies s (DidChangeContent d) =
     snd (validateTextDocument positionAt replies (s\<lparr>documents := setDocument (documents s) d\<rparr>) d)"
| "handle positionAt replies s (DidClose d) =
     onDidClose (s\<lparr>documents := filter (\<lambda>x. uri x \<noteq> uri d) (documents s)\<rparr>) d"
| "handle positionAt replies s DidChangeWatchedFiles = onDidChangeWatchedFiles s"

definition run ::
  "(string \<Rightarrow> nat \<Rightarrow> Position) \<Rightarrow> (nat \<Rightarrow> (error + FV1LanguageServerSettings option) option) \<Rightarrow> server
     \<Rightarrow> notification list \<Rightarrow> server" where
  "run positionAt replies s ns = foldl (handle positionAt replies) s ns"

fun isConfigurationChange :: "notification \<Rightarrow> bool" where
  "isConfigurationChange (DidChangeConfiguration change) = True"
| "isConfigurationChange n = False"

text \<open>Settings requested for a list of resources, one call after the other.\<close>

definition getAllDocumentSettings :: "server \<Rightarrow> string list \<Rightarrow> server" where
  "getAllDocumentSettings s rs = foldl (\<lambda>s' r. snd (getDocumentSettings s' r)) s rs"

text \<open>The number of configuration requests sent for a resource.\<close>

definition fetches :: "server \<Rightarrow> string \<Rightarrow> nat" where
  "fetches s resource = length (filter (\<lambda>q. fst q = resource) (getConfiguration s))"

section \<open>Examples\<close>

definition sampleText :: string where
  "sampleText = ''NOP\<newline>ABSA BADOPCODE\<newline>''"

definition sampleDocument :: TextDocument where
  "sampleDocument = \<lparr>uri = ''file:///sample.spn'', getText = sampleText\<rparr>"

text \<open>
  A \<open>positionAt\<close> for the examples: the line is the number of line feeds before the
  offset, the character the distance to the last of them.
\<close>

definition positionAt_LF :: "string \<Rightarrow> nat \<Rightarrow> Position" where
  "positionAt_LF text offset =
     (let before = take offset text
      in \<lparr>line = length (filter (\<lambda>c. c = CHR 0x0A) before),
          character = length (takeWhile (\<lambda>c. c \<noteq> CHR 0x0A) (rev before))\<rparr>)"

text \<open>A client that answers every configuration request with the same settings.\<close>

definition answerWith ::
  "FV1LanguageServerSettings option \<Rightarrow> nat \<Rightarrow> (error + FV1LanguageServerSettings option) option"
  where
  "answerWith v n = Some (Inr v)"

text \<open>A client that rejects every configuration request.\<close>

definition rejectAll :: "nat \<Rightarrow> (error + FV1LanguageServerSettings option) option" where
  "rejectAll n = Some (Inl (ResponseError ''request failed''))"

text \<open>A session whose client supports \<open>workspace/configuration\<close>.\<close>

definition configurableServer :: server where
  "configurableServer = initialServer\<lparr>hasConfigurationCapability := True\<rparr>"


text \<open>A session with a client that declares no capability at all.\<close>

definition sampleSession :: "notification list" where
  "sampleSession =
     [Initialize \<lparr>workspace_capabilities = None, textDocument_capabilities = None\<rparr>,
      Initialized,
      DidChangeContent sampleDocument,
      DidChangeWatchedFiles,
      DidClose sampleDocument]"

section \<open>The scan is bounded by the limit\<close>

text \<open>The loop, one round at a time.\<close>

lemma scan_no_match:
  "exec (getText d) li = (None, li') \<Longrightarrow> scan pa h d st li p acc = Inr acc"
  by (subst scan.simps) simp

lemma scan_null:
  "exec (getText d) li = (Some x, li') \<Longrightarrow> scan pa h d None li p acc = Inl TypeError"
  by (subst scan.simps) simp

lemma scan_step:
  "exec (getText d) li = (Some x, li') \<Longrightarrow> belowLimit p (maxNumberOfProblems v) \<Longrightarrow>
   scan pa h d (Some v) li p acc
   = scan pa h d (Some v) li' (p + 1) (acc @ [makeDiagnostic pa h d x])"
  by (subst scan.simps) simp

text \<open>With the limit reached, or missing, the loop body does not run.\<close>

lemma scan_limit_reached:
  "\<not> belowLimit p (maxNumberOfProblems v) \<Longrightarrow> scan pa h d (Some v) li p acc = Inr acc"
  by (subst scan.simps) (simp split: prod.splits option.splits)

lemma scan_prepend:
  "scan pa h d st li p (pre @ acc)
   = (case scan pa h d st li p acc of Inl e \<Rightarrow> Inl e | Inr ds \<Rightarrow> Inr (pre @ ds))"
proof (induction pa h d st li p acc arbitrary: pre rule: scan.induct)
  case (1 pa h d st li p acc)
  show ?case
  proof (cases "exec (getText d) li")
    case (Pair r li')
    show ?thesis
    proof (cases r)
      case None
      with Pair have e: "exec (getText d) li = (None, li')" by simp
      show ?thesis by (simp add: scan_no_match [OF e])
    next
      case (Some x)
      with Pair have e: "exec (getText d) li = (Some x, li')" by simp
      show ?thesis
      proof (cases st)
        case None
        then show ?thesis by (simp add: scan_null [OF e])
      next
        case v: (Some v)
        show ?thesis
        proof (cases "belowLimit p (maxNumberOfProblems v)")
          case True
          have "scan pa h d st li' (p + 1) (pre @ acc @ [makeDiagnostic pa h d x])
                = (case scan pa h d st li' (p + 1) (acc @ [makeDiagnostic pa h d x]) of
                     Inl e \<Rightarrow> Inl e
                   | Inr ds \<Rightarrow> Inr (pre @ ds))"
            using "1.IH" [OF Pair [symmetric] Some v True, of pre] by simp
          then show ?thesis
            using v by (simp add: scan_step [OF e True])
        next
          case False
          then show ?thesis
            using v by (simp add: scan_limit_reached)
        qed
      qed
    qed
  qed
qed

text \<open>With settings that are an object the scan does not throw.\<close>

lemma scan_object:
  "st = Some v \<Longrightarrow> \<exists>ds. scan pa h d st li p acc = Inr ds"
proof (induction pa h d st li p acc rule: scan.induct)
  case (1 pa h d st li p acc)
  show ?case
  proof (cases "exec (getText d) li")
    case (Pair r li')
    show ?thesis
    proof (cases r)
      case None
      with Pair have e: "exec (getText d) li = (None, li')" by simp
      show ?thesis by (simp add: scan_no_match [OF e])
    next
      case (Some x)
      with Pair have e: "exec (getText d) li = (Some x, li')" by simp
      show ?thesis
      proof (cases "belowLimit p (maxNumberOfProblems v)")
        case True
        have "\<exists>ds. scan pa h d st li' (p + 1) (acc @ [makeDiagnostic pa h d x]) = Inr ds"
          using "1.IH" [OF Pair [symmetric] Some "1.prems" True "1.prems"] by simp
        then show ?thesis
          using "1.prems" by (simp add: scan_step [OF e True])
      next
        case False
        then show ?thesis
          using "1.prems" by (simp add: scan_limit_reached)
      qed
    qed
  qed
qed

text \<open>How many more diagnostics a limit allows when \<open>p\<close> have been counted.\<close>

lemma scan_length:
  "st = Some v \<Longrightarrow> scan pa h d st li p acc = Inr ds \<Longrightarrow>
   length ds \<le> length acc
     + (case maxNumberOfProblems v of None \<Rightarrow> 0 | Some r \<Rightarrow> nat \<lceil>r - of_int p\<rceil>)"
proof (induction pa h d st li p acc rule: scan.induct)
  case (1 pa h d st li p acc)
  show ?case
  proof (cases "exec (getText d) li")
    case (Pair r li')
    show ?thesis
    proof (cases r)
      case None
      with Pair have e: "exec (getText d) li = (None, li')" by simp
      show ?thesis using "1.prems"(2) by (simp add: scan_no_match [OF e])
    next
      case (Some x)
      with Pair have e: "exec (getText d) li = (Some x, li')" by simp
      show ?thesis
      proof (cases "belowLimit p (maxNumberOfProblems v)")
        case True
        then obtain q where q: "maxNumberOfProblems v = Some q" "of_int p < q"
          by (auto simp add: belowLimit_def split: option.splits)
        have rec: "scan pa h d st li' (p + 1) (acc @ [makeDiagnostic pa h d x]) = Inr ds"
          using "1.prems" by (simp add: scan_step [OF e True])
        have "length ds \<le> length (acc @ [makeDiagnostic pa h d x])
                + (case maxNumberOfProblems v of None \<Rightarrow> 0
                   | Some r \<Rightarrow> nat \<lceil>r - of_int (p + 1)\<rceil>)"
          using "1.IH" [OF Pair [symmetric] Some "1.prems"(1) True "1.prems"(1) rec]
          by simp
        moreover have "q - of_int (p + 1) = (q - of_int p) - 1"
          by simp
        then have "\<lceil>q - of_int (p + 1)\<rceil> = \<lceil>q - of_int p\<rceil> - 1"
          by (simp only: ceiling_diff_one)
        moreover have "0 < \<lceil>q - of_int p\<rceil>"
          using q(2) by (simp add: less_ceiling_iff)
        ultimately show ?thesis
          using q(1) by simp
      next
        case False
        then have "ds = acc"
          using scan_limit_reached [OF False, of pa h d li acc] "1.prems" by simp
        then show ?thesis by simp
      qed
    qed
  qed
qed

text \<open>A smaller limit keeps a prefix of what a larger limit gives.\<close>

lemma scan_take:
  assumes "st = Some v" and "maxNumberOfProblems v = Some r" and "maxNumberOfProblems v' = Some r'"
    and "r \<le> r'" and "0 \<le> p" and "p \<le> \<lceil>r\<rceil>" and "length acc = nat p"
    and "scan pa h d st li p acc = Inr ds" and "scan pa h d (Some v') li p acc = Inr ds'"
  shows "ds = take (nat \<lceil>r\<rceil>) ds'"
  using assms
proof (induction pa h d st li p acc rule: scan.induct)
  case (1 pa h d st li p acc)
  show ?case
  proof (cases "exec (getText d) li")
    case (Pair x li')
    show ?thesis
    proof (cases x)
      case None
      with Pair have e: "exec (getText d) li = (None, li')" by simp
      have "ds = acc" "ds' = acc"
        using "1.prems"(8,9) by (simp_all add: scan_no_match [OF e])
      then show ?thesis using "1.prems"(5,6,7) by simp
    next
      case (Some m)
      with Pair have e: "exec (getText d) li = (Some m, li')" by simp
      show ?thesis
      proof (cases "belowLimit p (maxNumberOfProblems v)")
        case True
        then have lt: "of_int p < r" using "1.prems"(2) by (simp add: belowLimit_def)
        then have True': "belowLimit p (maxNumberOfProblems v')"
          using "1.prems"(3,4) by (simp add: belowLimit_def)
        have a: "scan pa h d st li' (p + 1) (acc @ [makeDiagnostic pa h d m]) = Inr ds"
          using "1.prems"(1,8) by (simp add: scan_step [OF e True])
        have b: "scan pa h d (Some v') li' (p + 1) (acc @ [makeDiagnostic pa h d m]) = Inr ds'"
          using "1.prems"(9) by (simp add: scan_step [OF e True'])
        have "p < \<lceil>r\<rceil>" using lt by (simp add: less_ceiling_iff)
        then have c: "p + 1 \<le> \<lceil>r\<rceil>" by simp
        have l: "length (acc @ [makeDiagnostic pa h d m]) = nat (p + 1)"
          using "1.prems"(5,7) by simp
        have nn: "0 \<le> p + 1" using "1.prems"(5) by simp
        show ?thesis
          by (rule "1.IH" [OF Pair [symmetric] Some "1.prems"(1) True "1.prems"(1,2,3,4) nn c l a b])
      next
        case False
        then have ge: "r \<le> of_int p" using "1.prems"(2) by (simp add: belowLimit_def)
        then have "\<lceil>r\<rceil> \<le> p" by (simp add: ceiling_le_iff)
        then have n: "nat \<lceil>r\<rceil> \<le> length acc" using "1.prems"(7) by simp
        have "ds = acc"
          using scan_limit_reached [OF False, of pa h d li acc] "1.prems"(1,8) by simp
        moreover have "scan pa h d (Some v') li p acc
                       = (case scan pa h d (Some v') li p [] of
                            Inl e \<Rightarrow> Inl e
                          | Inr xs \<Rightarrow> Inr (acc @ xs))"
          using scan_prepend [of pa h d "Some v'" li p acc "[]"] by simp
        then obtain xs where "ds' = acc @ xs"
          using "1.prems"(9) by (cases "scan pa h d (Some v') li p []") auto
        ultimately show ?thesis
          using n "1.prems"(6,7) \<open>\<lceil>r\<rceil> \<le> p\<close> by simp
      qed
    qed
  qed
qed

lemma computeDiagnostics_object:
  "\<exists>ds. computeDiagnostics pa h d (Some v) = Inr ds"
  using scan_object [of "Some v" v pa h d 0 0 "[]"] by (simp add: computeDiagnostics_def)

lemma computeDiagnostics_length:
  assumes "computeDiagnostics pa h d (Some v) = Inr ds"
  shows "length ds \<le> (case maxNumberOfProblems v of None \<Rightarrow> 0 | Some r \<Rightarrow> nat \<lceil>r\<rceil>)"
  using scan_length [of "Some v" v pa h d 0 0 "[]" ds] assms
  by (cases "maxNumberOfProblems v") (simp_all add: computeDiagnostics_def)

lemma computeDiagnostics_take:
  assumes "maxNumberOfProblems v = Some r" and "r \<le> r'"
    and "computeDiagnostics pa h d (Some v) = Inr ds"
    and "computeDiagnostics pa h d (Some (v\<lparr>maxNumberOfProblems := Some r'\<rparr>)) = Inr ds'"
  shows "ds = take (nat \<lceil>r\<rceil>) ds'"
proof (cases "belowLimit 0 (maxNumberOfProblems v)")
  case True
  then have "0 < r" using assms(1) by (simp add: belowLimit_def)
  then have c: "(0::int) \<le> \<lceil>r\<rceil>" by (simp add: le_ceiling_iff)
  have m: "maxNumberOfProblems (v\<lparr>maxNumberOfProblems := Some r'\<rparr>) = Some r'" by simp
  have z: "(0::int) \<le> 0" "length ([]::Diagnostic list) = nat 0" by simp_all
  show ?thesis
    using scan_take [OF refl assms(1) m assms(2) z(1) c z(2)] assms(3,4)
    by (simp add: computeDiagnostics_def)
next
  case False
  then have "r \<le> 0" using assms(1) by (simp add: belowLimit_def)
  then have "nat \<lceil>r\<rceil> = 0" by (simp add: ceiling_le_iff)
  moreover have "ds = []"
    using scan_limit_reached [OF False, of pa h d 0 "[]"] assms(3)
    by (simp add: computeDiagnostics_def)
  ultimately show ?thesis by simp
qed

text \<open>With \<open>null\<close> for settings the scan throws as soon as there is a match.\<close>

lemma computeDiagnostics_null:
  "computeDiagnostics pa h d None
   = (case fst (exec (getText d) 0) of None \<Rightarrow> Inr [] | Some m \<Rightarrow> Inl TypeError)"
  by (cases "exec (getText d) 0"; cases "fst (exec (getText d) 0)")
     (simp_all add: computeDiagnostics_def scan_no_match scan_null)

section \<open>What a match is\<close>

text \<open>
  A match of the pattern starts at or after \<open>lastIndex\<close>, is at least two characters
  long, consists of letters \<open>A\<close> to \<open>Z\<close> only, lies between two word boundaries,
  and leaves \<open>lastIndex\<close> at its end.
\<close>

lemma backtrack_Some:
  "backtrack Input i n = Some e \<Longrightarrow> \<exists>k. 2 \<le> k \<and> k \<le> n \<and> e = i + k \<and> wordBoundary Input e"
proof (induction Input i n rule: backtrack.induct)
  case (1 Input i n)
  show ?case
  proof (cases "n < 2")
    case True
    then show ?thesis using "1.prems" by (simp add: backtrack.simps [of Input i n])
  next
    case False
    show ?thesis
    proof (cases "wordBoundary Input (i + n)")
      case True
      then have "e = i + n" using False "1.prems" by (simp add: backtrack.simps [of Input i n])
      then show ?thesis using True False by auto
    next
      case b: False
      then have "backtrack Input i (n - 1) = Some e"
        using False "1.prems" by (simp add: backtrack.simps [of Input i n])
      from "1.IH" [OF False b this] show ?thesis by auto
    qed
  qed
qed

lemma upperRun_bound: "i \<le> length Input \<Longrightarrow> i + upperRun Input i \<le> length Input"
proof -
  assume "i \<le> length Input"
  moreover have "length (takeWhile in_A_Z (drop i Input)) \<le> length (drop i Input)"
    by (rule length_takeWhile_le)
  ultimately show ?thesis by (simp add: upperRun_def)
qed

lemma take_upperRun:
  assumes "k \<le> upperRun Input i"
  shows "\<forall>c \<in> set (take k (drop i Input)). in_A_Z c"
proof -
  let ?xs = "drop i Input"
  have "take k ?xs = take k (takeWhile in_A_Z ?xs @ dropWhile in_A_Z ?xs)" by simp
  also have "\<dots> = take k (takeWhile in_A_Z ?xs)"
    using assms unfolding upperRun_def by (simp del: takeWhile_dropWhile_id)
  finally have "set (take k ?xs) \<subseteq> set (takeWhile in_A_Z ?xs)"
    by (simp add: set_take_subset)
  then show ?thesis by (auto dest: set_takeWhileD)
qed

lemma matchAt_Some:
  assumes "matchAt Input i = Some e" and "i \<le> length Input"
  shows "i + 2 \<le> e \<and> e \<le> length Input \<and> wordBoundary Input i \<and> wordBoundary Input e
         \<and> (\<forall>c \<in> set (take (e - i) (drop i Input)). in_A_Z c)"
proof -
  have wb: "wordBoundary Input i" and bt: "backtrack Input i (upperRun Input i) = Some e"
    using assms(1) by (simp_all add: matchAt_def split: if_splits)
  obtain k where k: "2 \<le> k" "k \<le> upperRun Input i" "e = i + k" "wordBoundary Input e"
    using backtrack_Some [OF bt] by blast
  have "e \<le> length Input" using k(2,3) upperRun_bound [OF assms(2)] by linarith
  moreover have "\<forall>c \<in> set (take (e - i) (drop i Input)). in_A_Z c"
    using take_upperRun [OF k(2)] k(3) by simp
  ultimately show ?thesis using wb k by simp
qed

lemma exec_Some:
  "exec Input lastIndex = (Some m, lastIndex') \<Longrightarrow>
   lastIndex \<le> index m \<and> lastIndex' = index m + length (matched m) \<and> 2 \<le> length (matched m)
   \<and> lastIndex' \<le> length Input \<and> matched m = take (length (matched m)) (drop (index m) Input)
   \<and> (\<forall>c \<in> set (matched m). in_A_Z c)
   \<and> wordBoundary Input (index m) \<and> wordBoundary Input lastIndex'"
proof (induction Input lastIndex rule: exec.induct)
  case (1 Input lastIndex)
  show ?case
  proof (cases "length Input < lastIndex")
    case True
    then show ?thesis using "1.prems" by (simp add: exec.simps [of Input lastIndex])
  next
    case False
    show ?thesis
    proof (cases "matchAt Input lastIndex")
      case None
      then have "exec Input (lastIndex + 1) = (Some m, lastIndex')"
        using False "1.prems" by (simp add: exec.simps [of Input lastIndex])
      from "1.IH" [OF False None this] show ?thesis by auto
    next
      case (Some e)
      then have m: "m = \<lparr>index = lastIndex, matched = take (e - lastIndex) (drop lastIndex Input)\<rparr>"
        and e: "lastIndex' = e"
        using False "1.prems" by (auto simp add: exec.simps [of Input lastIndex])
      have le: "lastIndex \<le> length Input" using False by simp
      note f = matchAt_Some [OF Some le]
      have len: "length (matched m) = e - lastIndex"
        using m f by auto
      show ?thesis
        using m e f len by auto
    qed
  qed
qed

section \<open>What a pass does to the state\<close>

lemma getDocumentSettings_frame:
  "sendDiagnostics (snd (getDocumentSettings s r)) = sendDiagnostics s"
  "hasDiagnosticRelatedInformationCapability (snd (getDocumentSettings s r))
     = hasDiagnosticRelatedInformationCapability s"
  "hasConfigurationCapability (snd (getDocumentSettings s r)) = hasConfigurationCapability s"
  "globalSettings (snd (getDocumentSettings s r)) = globalSettings s"
  "documents (snd (getDocumentSettings s r)) = documents s"
  by (simp_all add: getDocumentSettings_def Let_def split: option.splits)

text \<open>
  A pass whose settings resolve and whose scan does not throw sends one notification,
  with the diagnostics of the scan.
\<close>

lemma validateTextDocument_resolved:
  assumes "settle replies (fst (validateTextDocument_call s d)) = Some (Inr v)"
    and "computeDiagnostics pa (hasDiagnosticRelatedInformationCapability s) d v = Inr ds"
  shows "validateTextDocument pa replies s d
         = (Some (Inr ()),
            (snd (validateTextDocument_call s d))
              \<lparr>sendDiagnostics := sendDiagnostics s @ [(uri d, ds)]\<rparr>)"
  using assms
  by (simp add: validateTextDocument_def validateTextDocument_resume_def
        validateTextDocument_call_def getDocumentSettings_frame split_beta Let_def)

text \<open>A pass whose scan throws ends with the error and sends nothing.\<close>

lemma validateTextDocument_throws:
  assumes "settle replies (fst (validateTextDocument_call s d)) = Some (Inr v)"
    and "computeDiagnostics pa (hasDiagnosticRelatedInformationCapability s) d v = Inl e"
  shows "validateTextDocument pa replies s d = (Some (Inl e), snd (validateTextDocument_call s d))"
  using assms
  by (simp add: validateTextDocument_def validateTextDocument_resume_def
        validateTextDocument_call_def getDocumentSettings_frame split_beta Let_def)

text \<open>A pass whose settings are rejected ends with the error and sends nothing.\<close>

lemma validateTextDocument_rejected:
  assumes "settle replies (fst (validateTextDocument_call s d)) = Some (Inl e)"
  shows "validateTextDocument pa replies s d = (Some (Inl e), snd (validateTextDocument_call s d))"
  using assms
  by (simp add: validateTextDocument_def validateTextDocument_resume_def split_beta Let_def)

section \<open>The example document\<close>

lemma exec_sample_0: "exec sampleText 0 = (Some \<lparr>index = 0, matched = ''NOP''\<rparr>, 3)"
  by code_simp

lemma exec_sample_3: "exec sampleText 3 = (Some \<lparr>index = 4, matched = ''ABSA''\<rparr>, 8)"
  by code_simp

lemma exec_sample_8: "exec sampleText 8 = (Some \<lparr>index = 9, matched = ''BADOPCODE''\<rparr>, 18)"
  by code_simp

lemma exec_sample_18: "exec sampleText 18 = (None, 0)"
  by code_simp

lemma settle_configurable_sample:
  "settle (answerWith v) (fst (validateTextDocument_call configurableServer sampleDocument))
   = Some (Inr v)"
  by (simp add: settle_def answerWith_def validateTextDocument_call_def getDocumentSettings_def
        configurableServer_def initialServer_def Let_def)

lemma computeDiagnostics_sample:
  assumes "getText d = sampleText" and "maxNumberOfProblems v = Some 1"
  shows "computeDiagnostics pa h d (Some v)
         = Inr [makeDiagnostic pa h d \<lparr>index = 0, matched = ''NOP''\<rparr>]"
proof -
  have e0: "exec (getText d) 0 = (Some \<lparr>index = 0, matched = ''NOP''\<rparr>, 3)"
    using assms(1) exec_sample_0 by simp
  have b0: "belowLimit 0 (maxNumberOfProblems v)"
    using assms(2) by (simp add: belowLimit_def)
  have b1: "\<not> belowLimit (0 + 1) (maxNumberOfProblems v)"
    using assms(2) by (simp add: belowLimit_def)
  show ?thesis
    unfolding computeDiagnostics_def scan_step [OF e0 b0] scan_limit_reached [OF b1] by simp
qed

text \<open>The limit 3/2 lets the loop body run twice.\<close>

lemma computeDiagnostics_sample_fraction:
  assumes "getText d = sampleText" and "maxNumberOfProblems v = Some (3 / 2)"
  shows "computeDiagnostics pa h d (Some v)
         = Inr [makeDiagnostic pa h d \<lparr>index = 0, matched = ''NOP''\<rparr>,
                makeDiagnostic pa h d \<lparr>index = 4, matched = ''ABSA''\<rparr>]"
proof -
  have e0: "exec (getText d) 0 = (Some \<lparr>index = 0, matched = ''NOP''\<rparr>, 3)"
    using assms(1) exec_sample_0 by simp
  have e3: "exec (getText d) 3 = (Some \<lparr>index = 4, matched = ''ABSA''\<rparr>, 8)"
    using assms(1) exec_sample_3 by simp
  have b0: "belowLimit 0 (maxNumberOfProblems v)"
    using assms(2) by (simp add: belowLimit_def)
  have b1: "belowLimit (0 + 1) (maxNumberOfProblems v)"
    using assms(2) by (simp add: belowLimit_def)
  have b2: "\<not> belowLimit (0 + 1 + 1) (maxNumberOfProblems v)"
    using assms(2) by (simp add: belowLimit_def)
  show ?thesis
    unfolding computeDiagnostics_def scan_step [OF e0 b0] scan_step [OF e3 b1]
      scan_limit_reached [OF b2] by simp
qed

section \<open>Claims about validation\<close>

text \<open>
  C1, as amended.  Whatever the document's text, a pass of \<open>validateTextDocument\<close>
  whose settings resolve with an object publishes one notification for the document.
  The list in it has at most \<open>maxNumberOfProblems\<close> diagnostics when that limit is an
  integer that is not negative; for any number it has at most as many as the limit
  rounded up (none for a negative limit), and none when the limit is missing.  The list
  is the beginning of the list that any larger limit gives: the matches beyond the limit
  are dropped.  With the limit 0 the list is empty, and it is published all the same.
\<close>

theorem validateTextDocument_at_most_maxNumberOfProblems:
  assumes "settle replies (fst (validateTextDocument_call s d)) = Some (Inr (Some v))"
  shows "\<exists>ds s'. validateTextDocument pa replies s d = (Some (Inr ()), s')
           \<and> sendDiagnostics s' = sendDiagnostics s @ [(uri d, ds)]
           \<and> (\<forall>k. maxNumberOfProblems v = Some (of_int k) \<and> 0 \<le> k \<longrightarrow> int (length ds) \<le> k)
           \<and> (\<forall>r. maxNumberOfProblems v = Some r \<longrightarrow> length ds \<le> nat \<lceil>r\<rceil>)
           \<and> (maxNumberOfProblems v = None \<longrightarrow> ds = [])
           \<and> (\<forall>r r'. maxNumberOfProblems v = Some r \<and> r \<le> r' \<longrightarrow>
                 (\<exists>ds'. computeDiagnostics pa (hasDiagnosticRelatedInformationCapability s) d
                          (Some (v\<lparr>maxNumberOfProblems := Some r'\<rparr>)) = Inr ds'
                        \<and> ds = take (nat \<lceil>r\<rceil>) ds'))
           \<and> (maxNumberOfProblems v = Some 0 \<longrightarrow> ds = [])"
proof -
  let ?h = "hasDiagnosticRelatedInformationCapability s"
  obtain ds where ds: "computeDiagnostics pa ?h d (Some v) = Inr ds"
    using computeDiagnostics_object by blast
  note len = computeDiagnostics_length [OF ds]
  have a: "\<forall>r. maxNumberOfProblems v = Some r \<longrightarrow> length ds \<le> nat \<lceil>r\<rceil>"
    using len by auto
  have b: "\<forall>k. maxNumberOfProblems v = Some (of_int k) \<and> 0 \<le> k \<longrightarrow> int (length ds) \<le> k"
  proof (intro allI impI)
    fix k :: int
    assume "maxNumberOfProblems v = Some (of_int k) \<and> 0 \<le> k"
    then have "length ds \<le> nat \<lceil>(of_int k :: rat)\<rceil>" "0 \<le> k" using a by simp_all
    then show "int (length ds) \<le> k" by simp
  qed
  have c: "maxNumberOfProblems v = None \<longrightarrow> ds = []"
    using len by auto
  have e: "maxNumberOfProblems v = Some 0 \<longrightarrow> ds = []"
    using len by auto
  have p: "\<forall>r r'. maxNumberOfProblems v = Some r \<and> r \<le> r' \<longrightarrow>
                 (\<exists>ds'. computeDiagnostics pa ?h d (Some (v\<lparr>maxNumberOfProblems := Some r'\<rparr>))
                          = Inr ds'
                        \<and> ds = take (nat \<lceil>r\<rceil>) ds')"
  proof (intro allI impI)
    fix r r' :: rat
    assume h: "maxNumberOfProblems v = Some r \<and> r \<le> r'"
    obtain ds' where ds':
      "computeDiagnostics pa ?h d (Some (v\<lparr>maxNumberOfProblems := Some r'\<rparr>)) = Inr ds'"
      using computeDiagnostics_object by blast
    have "ds = take (nat \<lceil>r\<rceil>) ds'"
      using computeDiagnostics_take [OF _ _ ds ds'] h by blast
    then show "\<exists>ds'. computeDiagnostics pa ?h d (Some (v\<lparr>maxNumberOfProblems := Some r'\<rparr>))
                          = Inr ds'
                        \<and> ds = take (nat \<lceil>r\<rceil>) ds'"
      using ds' by blast
  qed
  show ?thesis
    using validateTextDocument_resolved [OF assms ds] a b c e p by simp
qed

text \<open>
  The example document, with a client that answers \<open>maxNumberOfProblems = 2\<close>: the
  published list is the first two of the diagnostics that the limit 3 gives.  With a
  client that answers 0 the empty list is published.
\<close>

theorem validateTextDocument_at_most_maxNumberOfProblems_witness:
  "settle (answerWith (Some \<lparr>maxNumberOfProblems = Some 2\<rparr>))
       (fst (validateTextDocument_call configurableServer sampleDocument))
     = Some (Inr (Some \<lparr>maxNumberOfProblems = Some 2\<rparr>))
   \<and> (\<exists>ds ds' s'. validateTextDocument positionAt_LF
                     (answerWith (Some \<lparr>maxNumberOfProblems = Some 2\<rparr>))
                     configurableServer sampleDocument = (Some (Inr ()), s')
           \<and> sendDiagnostics s' = [(uri sampleDocument, ds)]
           \<and> length ds \<le> 2
           \<and> computeDiagnostics positionAt_LF False sampleDocument
                 (Some \<lparr>maxNumberOfProblems = Some 3\<rparr>) = Inr ds'
           \<and> ds = take 2 ds')
   \<and> (\<exists>s'. validateTextDocument positionAt_LF (answerWith (Some \<lparr>maxNumberOfProblems = Some 0\<rparr>))
                  configurableServer sampleDocument = (Some (Inr ()), s')
           \<and> sendDiagnostics s' = [(uri sampleDocument, [])])"
proof -
  let ?v2 = "\<lparr>maxNumberOfProblems = Some (2::rat)\<rparr>"
  let ?v0 = "\<lparr>maxNumberOfProblems = Some (0::rat)\<rparr>"
  have h: "settle (answerWith (Some ?v2))
       (fst (validateTextDocument_call configurableServer sampleDocument))
     = Some (Inr (Some ?v2))"
    by (rule settle_configurable_sample)
  have h0: "settle (answerWith (Some ?v0))
       (fst (validateTextDocument_call configurableServer sampleDocument))
     = Some (Inr (Some ?v0))"
    by (rule settle_configurable_sample)
  have none: "sendDiagnostics configurableServer = []"
      "hasDiagnosticRelatedInformationCapability configurableServer = False"
    by (simp_all add: configurableServer_def initialServer_def)
  obtain ds s' where r:
      "validateTextDocument positionAt_LF (answerWith (Some ?v2))
         configurableServer sampleDocument = (Some (Inr ()), s')"
      "sendDiagnostics s' = sendDiagnostics configurableServer @ [(uri sampleDocument, ds)]"
      "\<forall>k. maxNumberOfProblems ?v2 = Some (of_int k) \<and> 0 \<le> k \<longrightarrow> int (length ds) \<le> k"
      "\<forall>r r'. maxNumberOfProblems ?v2 = Some r \<and> r \<le> r' \<longrightarrow>
         (\<exists>ds'. computeDiagnostics positionAt_LF
                   (hasDiagnosticRelatedInformationCapability configurableServer) sampleDocument
                   (Some (?v2\<lparr>maxNumberOfProblems := Some r'\<rparr>)) = Inr ds'
                \<and> ds = take (nat \<lceil>r\<rceil>) ds')"
    using validateTextDocument_at_most_maxNumberOfProblems [OF h, of positionAt_LF] by blast
  obtain es t' where z:
      "validateTextDocument positionAt_LF (answerWith (Some ?v0))
         configurableServer sampleDocument = (Some (Inr ()), t')"
      "sendDiagnostics t' = sendDiagnostics configurableServer @ [(uri sampleDocument, es)]"
      "maxNumberOfProblems ?v0 = Some 0 \<longrightarrow> es = []"
    using validateTextDocument_at_most_maxNumberOfProblems [OF h0, of positionAt_LF] by blast
  have "int (length ds) \<le> 2"
    using r(3) [rule_format, of 2] by simp
  then have l: "length ds \<le> 2" by simp
  obtain ds' where p:
      "computeDiagnostics positionAt_LF False sampleDocument
         (Some \<lparr>maxNumberOfProblems = Some 3\<rparr>) = Inr ds'"
      "ds = take 2 ds'"
    using r(4) [rule_format, of 2 3] none by auto
  have s1: "sendDiagnostics s' = [(uri sampleDocument, ds)]"
    using r(2) none by simp
  have s0: "sendDiagnostics t' = [(uri sampleDocument, [])]"
    using z(2,3) none by simp
  show ?thesis
    using h r(1) s1 l p z(1) s0 by blast
qed

text \<open>
  The claim as it was: at most \<open>maxNumberOfProblems\<close> diagnostics for every value of
  the settings.  With the limit 3/2 the pass over the example document publishes two.
\<close>

theorem validateTextDocument_exceeds_fractional_limit:
  "sendDiagnostics (snd (validateTextDocument positionAt_LF
       (answerWith (Some \<lparr>maxNumberOfProblems = Some (3 / 2)\<rparr>)) configurableServer sampleDocument))
   = [(uri sampleDocument,
       [makeDiagnostic positionAt_LF False sampleDocument \<lparr>index = 0, matched = ''NOP''\<rparr>,
        makeDiagnostic positionAt_LF False sampleDocument \<lparr>index = 4, matched = ''ABSA''\<rparr>])]
   \<and> \<not> (of_nat (length
          [makeDiagnostic positionAt_LF False sampleDocument \<lparr>index = 0, matched = ''NOP''\<rparr>,
           makeDiagnostic positionAt_LF False sampleDocument \<lparr>index = 4, matched = ''ABSA''\<rparr>])
        \<le> (3 / 2 :: rat))"
proof -
  let ?v = "\<lparr>maxNumberOfProblems = Some (3 / 2 :: rat)\<rparr>"
  have h: "settle (answerWith (Some ?v))
       (fst (validateTextDocument_call configurableServer sampleDocument))
     = Some (Inr (Some ?v))"
    by (rule settle_configurable_sample)
  have none: "sendDiagnostics configurableServer = []"
      "hasDiagnosticRelatedInformationCapability configurableServer = False"
    by (simp_all add: configurableServer_def initialServer_def)
  have c: "computeDiagnostics positionAt_LF
             (hasDiagnosticRelatedInformationCapability configurableServer) sampleDocument (Some ?v)
           = Inr [makeDiagnostic positionAt_LF False sampleDocument \<lparr>index = 0, matched = ''NOP''\<rparr>,
                  makeDiagnostic positionAt_LF False sampleDocument
                    \<lparr>index = 4, matched = ''ABSA''\<rparr>]"
    unfolding none
    by (rule computeDiagnostics_sample_fraction) (simp_all add: sampleDocument_def)
  show ?thesis
    using validateTextDocument_resolved [OF h c] none by simp
qed

text \<open>
  When the settings resolve with \<open>null\<close> and the text has a match, the pass ends with
  the \<open>TypeError\<close> of the property access and sends nothing.
\<close>

lemma validateTextDocument_null:
  assumes "settle replies (fst (validateTextDocument_call s d)) = Some (Inr None)"
    and "fst (exec (getText d) 0) = Some m"
  shows "fst (validateTextDocument pa replies s d) = Some (Inl TypeError)"
    and "sendDiagnostics (snd (validateTextDocument pa replies s d)) = sendDiagnostics s"
proof -
  have "computeDiagnostics pa (hasDiagnosticRelatedInformationCapability s) d None = Inl TypeError"
    using assms(2) by (simp add: computeDiagnostics_null)
  from validateTextDocument_throws [OF assms(1) this]
  show "fst (validateTextDocument pa replies s d) = Some (Inl TypeError)"
    and "sendDiagnostics (snd (validateTextDocument pa replies s d)) = sendDiagnostics s"
    by (simp_all add: validateTextDocument_call_def getDocumentSettings_frame)
qed

text \<open>
  C2.  For the document text \<open>NOP\<close>, line feed, \<open>ABSA BADOPCODE\<close>, line feed, and
  settings that resolve with \<open>maxNumberOfProblems = 1\<close>, the pass publishes exactly one
  diagnostic.  It is the one of the first match of the scan, \<open>NOP\<close> at offset 0: its
  range goes from the position of offset 0 to the position of offset 3, its severity is
  \<open>Warning\<close> and its message is \<open>NOP is all uppercase.\<close>
\<close>

theorem validateTextDocument_sample:
  assumes "getText d = sampleText"
    and "settle replies (fst (validateTextDocument_call s d)) = Some (Inr (Some st))"
    and "maxNumberOfProblems st = Some 1"
  shows "\<exists>s'. validateTextDocument pa replies s d = (Some (Inr ()), s')
           \<and> sendDiagnostics s' = sendDiagnostics s @
               [(uri d,
                 [\<lparr>severity = Warning,
                   range = \<lparr>range_start = pa sampleText 0, range_end = pa sampleText 3\<rparr>,
                   message = ''NOP is all uppercase.'',
                   source = ''ex'',
                   relatedInformation =
                     (if hasDiagnosticRelatedInformationCapability s then
                        Some [\<lparr>location = \<lparr>location_uri = uri d,
                                  location_range = \<lparr>range_start = pa sampleText 0, range_end = pa sampleText 3\<rparr>\<rparr>,
                                related_message = ''Spelling matters''\<rparr>,
                              \<lparr>location = \<lparr>location_uri = uri d,
                                  location_range = \<lparr>range_start = pa sampleText 0, range_end = pa sampleText 3\<rparr>\<rparr>,
                                related_message = ''Particularly for names''\<rparr>]
                      else None)\<rparr>])]
           \<and> exec (getText d) 0 = (Some \<lparr>index = 0, matched = ''NOP''\<rparr>, 3)
           \<and> take 3 (getText d) = ''NOP''"
proof -
  have c: "computeDiagnostics pa (hasDiagnosticRelatedInformationCapability s) d (Some st)
        = Inr [makeDiagnostic pa (hasDiagnosticRelatedInformationCapability s) d
                 \<lparr>index = 0, matched = ''NOP''\<rparr>]"
    using assms(1,3) by (rule computeDiagnostics_sample)
  have "take 3 sampleText = ''NOP''"
    by (simp add: sampleText_def)
  then show ?thesis
    using validateTextDocument_resolved [OF assms(2) c] assms(1) exec_sample_0
    by (simp add: makeDiagnostic_def Let_def numeral_3_eq_3)
qed

text \<open>The same with a client that answers \<open>maxNumberOfProblems = 1\<close>.\<close>

theorem validateTextDocument_sample_witness:
  "getText sampleDocument = sampleText
   \<and> settle (answerWith (Some \<lparr>maxNumberOfProblems = Some 1\<rparr>))
         (fst (validateTextDocument_call configurableServer sampleDocument))
       = Some (Inr (Some \<lparr>maxNumberOfProblems = Some 1\<rparr>))
   \<and> maxNumberOfProblems \<lparr>maxNumberOfProblems = Some 1\<rparr> = Some 1
   \<and> (\<exists>s'. validateTextDocument positionAt_LF (answerWith (Some \<lparr>maxNumberOfProblems = Some 1\<rparr>))
               configurableServer sampleDocument = (Some (Inr ()), s')
          \<and> sendDiagnostics s' =
               [(''file:///sample.spn'',
                 [\<lparr>severity = Warning,
                   range = \<lparr>range_start = \<lparr>line = 0, character = 0\<rparr>,
                            range_end = \<lparr>line = 0, character = 3\<rparr>\<rparr>,
                   message = ''NOP is all uppercase.'',
                   source = ''ex'',
                   relatedInformation = None\<rparr>])])"
proof -
  have a: "getText sampleDocument = sampleText"
    by (simp add: sampleDocument_def)
  have b: "settle (answerWith (Some \<lparr>maxNumberOfProblems = Some 1\<rparr>))
         (fst (validateTextDocument_call configurableServer sampleDocument))
       = Some (Inr (Some \<lparr>maxNumberOfProblems = Some 1\<rparr>))"
    by (rule settle_configurable_sample)
  have c: "maxNumberOfProblems \<lparr>maxNumberOfProblems = Some 1\<rparr> = Some 1"
    by simp
  have p0: "positionAt_LF sampleText 0 = \<lparr>line = 0, character = 0\<rparr>"
    by (simp add: positionAt_LF_def sampleText_def)
  have p3: "positionAt_LF sampleText 3 = \<lparr>line = 0, character = 3\<rparr>"
    by (simp add: positionAt_LF_def sampleText_def)
  obtain s' where r:
      "validateTextDocument positionAt_LF (answerWith (Some \<lparr>maxNumberOfProblems = Some 1\<rparr>))
         configurableServer sampleDocument = (Some (Inr ()), s')"
      "sendDiagnostics s' = sendDiagnostics configurableServer @
               [(uri sampleDocument,
                 [\<lparr>severity = Warning,
                   range = \<lparr>range_start = positionAt_LF sampleText 0,
                            range_end = positionAt_LF sampleText 3\<rparr>,
                   message = ''NOP is all uppercase.'',
                   source = ''ex'',
                   relatedInformation =
                     (if hasDiagnosticRelatedInformationCapability configurableServer then
                        Some [\<lparr>location = \<lparr>location_uri = uri sampleDocument,
                                  location_range = \<lparr>range_start = positionAt_LF sampleText 0,
                                                     range_end = positionAt_LF sampleText 3\<rparr>\<rparr>,
                                related_message = ''Spelling matters''\<rparr>,
                              \<lparr>location = \<lparr>location_uri = uri sampleDocument,
                                  location_range = \<lparr>range_start = positionAt_LF sampleText 0,
                                                     range_end = positionAt_LF sampleText 3\<rparr>\<rparr>,
                                related_message = ''Particularly for names''\<rparr>]
                      else None)\<rparr>])]"
    using validateTextDocument_sample [OF a b c, of positionAt_LF] by blast
  have "sendDiagnostics s' =
               [(''file:///sample.spn'',
                 [\<lparr>severity = Warning,
                   range = \<lparr>range_start = \<lparr>line = 0, character = 0\<rparr>,
                            range_end = \<lparr>line = 0, character = 3\<rparr>\<rparr>,
                   message = ''NOP is all uppercase.'',
                   source = ''ex'',
                   relatedInformation = None\<rparr>])]"
    using r(2) p0 p3 by (simp add: configurableServer_def initialServer_def sampleDocument_def)
  then show ?thesis
    using a b r(1) by simp
qed

lemma displayed_after_send:
  "displayed (s\<lparr>sendDiagnostics := xs @ [(u, ds)]\<rparr>) u = Some ds"
  by (simp add: displayed_def)

text \<open>
  C6.  When the promise awaited at the start of \<open>validateTextDocument\<close> rejects, the
  pass ends with that error and sends no diagnostics: the notifications sent so far,
  and with them the set the client shows for every document, stay as they were.
\<close>

theorem validateTextDocument_fetch_failure:
  assumes "settle replies (fst (validateTextDocument_call s d)) = Some (Inl e)"
  shows "\<exists>s'. validateTextDocument pa replies s d = (Some (Inl e), s')
           \<and> sendDiagnostics s' = sendDiagnostics s
           \<and> displayed s' = displayed s"
  using validateTextDocument_rejected [OF assms, of pa]
  by (simp add: validateTextDocument_call_def getDocumentSettings_frame displayed_def fun_eq_iff)

lemma settle_rejectAll_sample:
  "settle rejectAll (fst (validateTextDocument_call configurableServer sampleDocument))
   = Some (Inl (ResponseError ''request failed''))"
  by (simp add: settle_def rejectAll_def validateTextDocument_call_def getDocumentSettings_def
        configurableServer_def initialServer_def Let_def)

text \<open>A client that rejects the configuration request.\<close>

theorem validateTextDocument_fetch_failure_witness:
  "settle rejectAll (fst (validateTextDocument_call configurableServer sampleDocument))
     = Some (Inl (ResponseError ''request failed''))
   \<and> (\<exists>s'. validateTextDocument positionAt_LF rejectAll configurableServer sampleDocument
               = (Some (Inl (ResponseError ''request failed'')), s')
          \<and> sendDiagnostics s' = []
          \<and> displayed s' ''file:///sample.spn'' = None)"
proof -
  obtain s' where r:
      "validateTextDocument positionAt_LF rejectAll configurableServer sampleDocument
         = (Some (Inl (ResponseError ''request failed'')), s')"
      "sendDiagnostics s' = sendDiagnostics configurableServer"
      "displayed s' = displayed configurableServer"
    using validateTextDocument_fetch_failure [OF settle_rejectAll_sample, of positionAt_LF]
    by blast
  have "sendDiagnostics s' = []"
    using r(2) by (simp add: configurableServer_def initialServer_def)
  moreover have "displayed s' ''file:///sample.spn'' = None"
    using r(3) by (simp add: configurableServer_def initialServer_def displayed_def)
  ultimately show ?thesis
    using r(1) settle_rejectAll_sample by simp
qed

text \<open>
  C8.  Two passes over the same document (the same URI and text) whose settings resolve to
  the same value, in two states with the same related-information flag, end in the same
  way and send the same notification, whatever else differs between the states: each
  pass scans the whole text again.  When the settings are an object the pass publishes,
  and what the client shows afterwards is the list of this pass alone, not merged with
  what was shown before.
\<close>

theorem validateTextDocument_deterministic:
  assumes "hasDiagnosticRelatedInformationCapability s1 = hasDiagnosticRelatedInformationCapability s2"
    and "settle replies1 (fst (validateTextDocument_call s1 d)) = Some (Inr v)"
    and "settle replies2 (fst (validateTextDocument_call s2 d)) = Some (Inr v)"
  shows "fst (validateTextDocument pa replies2 s2 d) = fst (validateTextDocument pa replies1 s1 d)
       \<and> drop (length (sendDiagnostics s2)) (sendDiagnostics (snd (validateTextDocument pa replies2 s2 d)))
           = drop (length (sendDiagnostics s1))
               (sendDiagnostics (snd (validateTextDocument pa replies1 s1 d)))
       \<and> (\<forall>st. v = Some st \<longrightarrow>
             (\<exists>ds. computeDiagnostics pa (hasDiagnosticRelatedInformationCapability s1) d v = Inr ds
                  \<and> displayed (snd (validateTextDocument pa replies1 s1 d)) (uri d) = Some ds
                  \<and> displayed (snd (validateTextDocument pa replies2 s2 d)) (uri d) = Some ds
                  \<and> last (sendDiagnostics (snd (validateTextDocument pa replies1 s1 d)))
                      = (uri d, ds)
                  \<and> last (sendDiagnostics (snd (validateTextDocument pa replies2 s2 d)))
                      = (uri d, ds)))"
proof (cases "computeDiagnostics pa (hasDiagnosticRelatedInformationCapability s1) d v")
  case (Inl e)
  then have e2: "computeDiagnostics pa (hasDiagnosticRelatedInformationCapability s2) d v = Inl e"
    using assms(1) by simp
  have "\<forall>st. v \<noteq> Some st"
  proof (intro allI notI)
    fix st assume "v = Some st"
    then show False
      using Inl computeDiagnostics_object
        [of pa "hasDiagnosticRelatedInformationCapability s1" d st] by simp
  qed
  then show ?thesis
    using validateTextDocument_throws [OF assms(2) Inl] validateTextDocument_throws [OF assms(3) e2]
    by (simp add: validateTextDocument_call_def getDocumentSettings_frame)
next
  case (Inr ds)
  then have d2: "computeDiagnostics pa (hasDiagnosticRelatedInformationCapability s2) d v = Inr ds"
    using assms(1) by simp
  show ?thesis
    using validateTextDocument_resolved [OF assms(2) Inr]
      validateTextDocument_resolved [OF assms(3) d2] Inr
    by (auto simp add: displayed_after_send)
qed

lemma settle_answerWith_request:
  "settle (answerWith v) (ConfigurationRequest n) = Some (Inr v)"
  by (simp add: settle_def answerWith_def)

lemma validateTextDocument_call_configurable_sample:
  "validateTextDocument_call configurableServer sampleDocument
   = (ConfigurationRequest 0,
      configurableServer
        \<lparr>getConfiguration := [(''file:///sample.spn'', ''fv1LanguageServer'')],
          documentSettings := [''file:///sample.spn'' \<mapsto> ConfigurationRequest 0]\<rparr>)"
  by (simp add: validateTextDocument_call_def getDocumentSettings_def configurableServer_def
        initialServer_def sampleDocument_def Let_def)

text \<open>The example document validated twice in a row.\<close>

theorem validateTextDocument_deterministic_witness:
  "(let v = Some \<lparr>maxNumberOfProblems = Some 1\<rparr>;
        s1 = configurableServer;
        s2 = snd (validateTextDocument positionAt_LF (answerWith v) s1 sampleDocument);
        ds = [makeDiagnostic positionAt_LF False sampleDocument \<lparr>index = 0, matched = ''NOP''\<rparr>]
    in hasDiagnosticRelatedInformationCapability s1 = hasDiagnosticRelatedInformationCapability s2
       \<and> settle (answerWith v) (fst (validateTextDocument_call s1 sampleDocument)) = Some (Inr v)
       \<and> settle (answerWith v) (fst (validateTextDocument_call s2 sampleDocument)) = Some (Inr v)
       \<and> displayed s1 (uri sampleDocument) = None
       \<and> displayed s2 (uri sampleDocument) = Some ds
       \<and> sendDiagnostics s2 = [(uri sampleDocument, ds)]
       \<and> displayed (snd (validateTextDocument positionAt_LF (answerWith v) s2 sampleDocument))
             (uri sampleDocument) = Some ds
       \<and> fst (validateTextDocument positionAt_LF (answerWith v) s2 sampleDocument)
           = fst (validateTextDocument positionAt_LF (answerWith v) s1 sampleDocument))"
proof -
  let ?v = "Some \<lparr>maxNumberOfProblems = Some (1::rat)\<rparr>"
  let ?ds = "[makeDiagnostic positionAt_LF False sampleDocument \<lparr>index = 0, matched = ''NOP''\<rparr>]"
  let ?s2 = "snd (validateTextDocument positionAt_LF (answerWith ?v) configurableServer
                    sampleDocument)"
  have h1: "settle (answerWith ?v) (fst (validateTextDocument_call configurableServer sampleDocument))
            = Some (Inr ?v)"
    by (rule settle_configurable_sample)
  have f: "hasDiagnosticRelatedInformationCapability configurableServer = False"
      "sendDiagnostics configurableServer = []"
    by (simp_all add: configurableServer_def initialServer_def)
  have c: "computeDiagnostics positionAt_LF
             (hasDiagnosticRelatedInformationCapability configurableServer) sampleDocument ?v
           = Inr ?ds"
    unfolding f by (rule computeDiagnostics_sample) (simp_all add: sampleDocument_def)
  have s2: "?s2 = (snd (validateTextDocument_call configurableServer sampleDocument))
              \<lparr>sendDiagnostics := sendDiagnostics configurableServer @ [(uri sampleDocument, ?ds)]\<rparr>"
    using validateTextDocument_resolved [OF h1 c] by simp
  have cached: "hasConfigurationCapability ?s2"
      "documentSettings ?s2 (uri sampleDocument) = Some (ConfigurationRequest 0)"
      "hasDiagnosticRelatedInformationCapability ?s2 = False"
      "sendDiagnostics ?s2 = [(uri sampleDocument, ?ds)]"
    unfolding s2 validateTextDocument_call_configurable_sample
    by (simp_all add: configurableServer_def initialServer_def sampleDocument_def)
  have flag: "hasDiagnosticRelatedInformationCapability configurableServer
              = hasDiagnosticRelatedInformationCapability ?s2"
    using cached(3) f(1) by simp
  have h2: "settle (answerWith ?v) (fst (validateTextDocument_call ?s2 sampleDocument))
            = Some (Inr ?v)"
    using cached(1,2)
    by (simp add: validateTextDocument_call_def getDocumentSettings_def settle_answerWith_request)
  have none: "displayed configurableServer (uri sampleDocument) = None"
    by (simp add: displayed_def configurableServer_def initialServer_def)
  note t = validateTextDocument_deterministic [OF flag h1 h2, of positionAt_LF]
  have same: "fst (validateTextDocument positionAt_LF (answerWith ?v) ?s2 sampleDocument)
           = fst (validateTextDocument positionAt_LF (answerWith ?v) configurableServer
                    sampleDocument)"
    using t by blast
  obtain es where es:
      "computeDiagnostics positionAt_LF
         (hasDiagnosticRelatedInformationCapability configurableServer) sampleDocument ?v = Inr es"
      "displayed ?s2 (uri sampleDocument) = Some es"
      "displayed (snd (validateTextDocument positionAt_LF (answerWith ?v) ?s2 sampleDocument))
         (uri sampleDocument) = Some es"
    using t by blast
  have "es = ?ds" using es(1) c by simp
  then show ?thesis
    unfolding Let_def using flag h1 h2 none es(2,3) cached(4) same by blast
qed

section \<open>Claims about the settings cache\<close>

lemma getDocumentSettings_cached:
  "hasConfigurationCapability s \<Longrightarrow> documentSettings s r = Some t \<Longrightarrow>
   getDocumentSettings s r = (t, s)"
  by (simp add: getDocumentSettings_def)

lemma getDocumentSettings_miss:
  "hasConfigurationCapability s \<Longrightarrow> documentSettings s r = None \<Longrightarrow>
   getDocumentSettings s r
   = (ConfigurationRequest (length (getConfiguration s)),
      s\<lparr>getConfiguration := getConfiguration s @ [(r, ''fv1LanguageServer'')],
        documentSettings := (documentSettings s)(r \<mapsto> ConfigurationRequest (length (getConfiguration s)))\<rparr>)"
  by (simp add: getDocumentSettings_def Let_def)

lemma getDocumentSettings_unsupported:
  "\<not> hasConfigurationCapability s \<Longrightarrow>
   getDocumentSettings s r = (Resolved (Some (globalSettings s)), s)"
  by (simp add: getDocumentSettings_def)

lemma getDocumentSettings_stored:
  "hasConfigurationCapability s \<Longrightarrow>
   documentSettings (snd (getDocumentSettings s r)) r = Some (fst (getDocumentSettings s r))"
  by (cases "documentSettings s r")
     (simp_all add: getDocumentSettings_miss getDocumentSettings_cached)

lemma getDocumentSettings_other:
  "r' \<noteq> r \<Longrightarrow> documentSettings (snd (getDocumentSettings s r')) r = documentSettings s r"
  by (simp add: getDocumentSettings_def Let_def split: option.splits)

lemma getDocumentSettings_keeps:
  "documentSettings s r = Some t \<Longrightarrow> documentSettings (snd (getDocumentSettings s r')) r = Some t"
  by (auto simp add: getDocumentSettings_def Let_def split: option.splits)

lemma fetches_getDocumentSettings:
  "hasConfigurationCapability s \<Longrightarrow>
   fetches (snd (getDocumentSettings s r')) r
   = fetches s r + (if r' = r \<and> documentSettings s r = None then 1 else 0)"
  by (cases "documentSettings s r'")
     (auto simp add: getDocumentSettings_miss getDocumentSettings_cached fetches_def)

lemma fetches_getAllDocumentSettings:
  "hasConfigurationCapability s \<Longrightarrow>
   fetches (getAllDocumentSettings s rs) r
   = fetches s r + (if r \<in> set rs \<and> documentSettings s r = None then 1 else 0)"
proof (induction rs arbitrary: s)
  case Nil
  then show ?case by (simp add: getAllDocumentSettings_def)
next
  case (Cons r' rs)
  let ?s' = "snd (getDocumentSettings s r')"
  have cap: "hasConfigurationCapability ?s'"
    using Cons.prems by (simp add: getDocumentSettings_frame)
  have unfold: "getAllDocumentSettings s (r' # rs) = getAllDocumentSettings ?s' rs"
    by (simp add: getAllDocumentSettings_def)
  have ih: "fetches (getAllDocumentSettings ?s' rs) r
            = fetches ?s' r + (if r \<in> set rs \<and> documentSettings ?s' r = None then 1 else 0)"
    using Cons.IH [OF cap] .
  have step: "fetches ?s' r = fetches s r + (if r' = r \<and> documentSettings s r = None then 1 else 0)"
    using Cons.prems by (rule fetches_getDocumentSettings)
  show ?case
  proof (cases "r' = r")
    case True
    have "documentSettings ?s' r \<noteq> None"
      using getDocumentSettings_stored [OF Cons.prems, of r] True by simp
    then show ?thesis
      using unfold ih step True by simp
  next
    case False
    have "documentSettings ?s' r = documentSettings s r"
      using False by (rule getDocumentSettings_other)
    then show ?thesis
      using unfold ih step False by simp
  qed
qed

text \<open>
  C5.  With per-resource configuration, \<open>documentSettings\<close> is a map and so has at
  most one entry for a resource.  \<open>getDocumentSettings\<close> has stored the promise it
  returns when it returns; asked again for the same resource it returns the same
  promise and sends nothing.  Over any sequence of calls the number of requests sent for
  a resource grows by one if the resource had no entry and is asked for, and not at all
  otherwise.  After the map has been cleared by a configuration change, or the entry
  deleted when the document closed, the next call sends exactly one request, and the
  calls after it none.
\<close>

theorem getDocumentSettings_one_fetch:
  assumes "hasConfigurationCapability s"
  shows "documentSettings (snd (getDocumentSettings s r)) r = Some (fst (getDocumentSettings s r))
     \<and> getDocumentSettings (snd (getDocumentSettings s r)) r = getDocumentSettings s r
     \<and> fetches (getAllDocumentSettings s rs) r
         = fetches s r + (if r \<in> set rs \<and> documentSettings s r = None then 1 else 0)
     \<and> applyConfigurationChange s change = Inr (s\<lparr>documentSettings := Map.empty\<rparr>)
     \<and> fetches (snd (getDocumentSettings (s\<lparr>documentSettings := Map.empty\<rparr>) r)) r
         = fetches s r + 1
     \<and> fetches (getAllDocumentSettings (s\<lparr>documentSettings := Map.empty\<rparr>) (r # rs)) r
         = fetches s r + 1
     \<and> fetches (getAllDocumentSettings (onDidClose s d) (uri d # rs)) (uri d)
         = fetches s (uri d) + 1"
proof -
  let ?g = "getDocumentSettings s r"
  have stored: "documentSettings (snd ?g) r = Some (fst ?g)"
    using assms by (rule getDocumentSettings_stored)
  have cap: "hasConfigurationCapability (snd ?g)"
    using assms by (simp add: getDocumentSettings_frame)
  have again: "getDocumentSettings (snd ?g) r = ?g"
    using getDocumentSettings_cached [OF cap stored] by simp
  let ?c = "s\<lparr>documentSettings := Map.empty\<rparr>"
  have capc: "hasConfigurationCapability ?c" using assms by simp
  have fc: "fetches ?c r = fetches s r" "fetches (onDidClose s d) (uri d) = fetches s (uri d)"
    by (simp_all add: fetches_def onDidClose_def)
  have capd: "hasConfigurationCapability (onDidClose s d)"
    using assms by (simp add: onDidClose_def)
  have c1: "fetches (snd (getDocumentSettings ?c r)) r = fetches s r + 1"
    using fetches_getDocumentSettings [OF capc, of r r] fc by simp
  have c2: "fetches (getAllDocumentSettings ?c (r # rs)) r = fetches s r + 1"
    using fetches_getAllDocumentSettings [OF capc, of "r # rs" r] fc by simp
  have c3: "fetches (getAllDocumentSettings (onDidClose s d) (uri d # rs)) (uri d)
            = fetches s (uri d) + 1"
    using fetches_getAllDocumentSettings [OF capd, of "uri d # rs" "uri d"] fc
    by (simp add: onDidClose_def)
  have ap: "applyConfigurationChange s change = Inr ?c"
    using assms by (simp add: applyConfigurationChange_def)
  show ?thesis
    using stored again fetches_getAllDocumentSettings [OF assms] ap c1 c2 c3 by blast
qed

text \<open>The settings of one resource asked for several times.\<close>

theorem getDocumentSettings_one_fetch_witness:
  "hasConfigurationCapability configurableServer
   \<and> getDocumentSettings configurableServer ''a''
       = (ConfigurationRequest 0,
          configurableServer\<lparr>getConfiguration := [(''a'', ''fv1LanguageServer'')],
                             documentSettings := [''a'' \<mapsto> ConfigurationRequest 0]\<rparr>)
   \<and> getDocumentSettings (snd (getDocumentSettings configurableServer ''a'')) ''a''
       = getDocumentSettings configurableServer ''a''
   \<and> fetches (getAllDocumentSettings configurableServer [''a'', ''b'', ''a'', ''a'']) ''a'' = 1
   \<and> fetches (getAllDocumentSettings (onDidClose configurableServer sampleDocument)
                 [uri sampleDocument, uri sampleDocument]) (uri sampleDocument) = 1"
proof -
  have cap: "hasConfigurationCapability configurableServer"
    by (simp add: configurableServer_def)
  have zero: "fetches configurableServer r = 0" "documentSettings configurableServer r = None" for r
    by (simp_all add: fetches_def configurableServer_def initialServer_def)
  have first: "getDocumentSettings configurableServer ''a''
       = (ConfigurationRequest 0,
          configurableServer\<lparr>getConfiguration := [(''a'', ''fv1LanguageServer'')],
                             documentSettings := [''a'' \<mapsto> ConfigurationRequest 0]\<rparr>)"
    by (simp add: getDocumentSettings_def configurableServer_def initialServer_def Let_def)
  note t = getDocumentSettings_one_fetch [OF cap,
      where r = "''a''" and rs = "[''a'', ''b'', ''a'', ''a'']" and d = sampleDocument]
  note u = getDocumentSettings_one_fetch [OF cap,
      where r = "''a''" and rs = "[uri sampleDocument]" and d = sampleDocument]
  have again: "getDocumentSettings (snd (getDocumentSettings configurableServer ''a'')) ''a''
       = getDocumentSettings configurableServer ''a''"
    using t by blast
  have many: "fetches (getAllDocumentSettings configurableServer [''a'', ''b'', ''a'', ''a'']) ''a'' = 1"
    using t zero by simp
  have closed: "fetches (getAllDocumentSettings (onDidClose configurableServer sampleDocument)
                 [uri sampleDocument, uri sampleDocument]) (uri sampleDocument) = 1"
    using u zero by simp
  show ?thesis using cap first again many closed by blast
qed

section \<open>Claims about configuration changes\<close>








lemma validateTextDocument_resume_frame:
  "globalSettings (snd (validateTextDocument_resume pa s d outcome)) = globalSettings s"
  "documentSettings (snd (validateTextDocument_resume pa s d outcome)) = documentSettings s"
  "hasConfigurationCapability (snd (validateTextDocument_resume pa s d outcome))
     = hasConfigurationCapability s"
  by (simp_all add: validateTextDocument_resume_def split: sum.splits)







section \<open>Claims about the fallback settings\<close>

lemma validateTextDocument_frame:
  "globalSettings (snd (validateTextDocument pa replies s d)) = globalSettings s"
  "hasConfigurationCapability (snd (validateTextDocument pa replies s d))
     = hasConfigurationCapability s"
  by (simp_all add: validateTextDocument_def validateTextDocument_call_def split_beta Let_def
        validateTextDocument_resume_frame getDocumentSettings_frame split: option.splits)

lemma handle_globalSettings:
  "\<not> isConfigurationChange n \<Longrightarrow> globalSettings (handle pa replies s n) = globalSettings s"
  by (cases n)
     (simp_all add: onInitialize_def onInitialized_def onDidClose_def onDidChangeWatchedFiles_def
        validateTextDocument_frame Let_def)

lemma run_globalSettings:
  "\<forall>n \<in> set ns. \<not> isConfigurationChange n \<Longrightarrow>
   globalSettings (run pa replies s ns) = globalSettings s"
proof (induction ns arbitrary: s)
  case Nil
  then show ?case by (simp add: run_def)
next
  case (Cons n ns)
  have "run pa replies s (n # ns) = run pa replies (handle pa replies s n) ns"
    by (simp add: run_def)
  then show ?case
    using Cons.IH [of "handle pa replies s n"] Cons.prems handle_globalSettings [of n pa replies s]
    by simp
qed

text \<open>
  C9.  Without per-resource configuration \<open>getDocumentSettings\<close> returns a promise
  that is already resolved with \<open>globalSettings\<close>, and sends nothing.  As long as
  no configuration change has been notified, that value is \<open>defaultSettings\<close>, whose
  limit is 1000; the default that package.json declares is 100.
\<close>

theorem getDocumentSettings_unsupported_default:
  "(\<not> hasConfigurationCapability s \<longrightarrow>
      getDocumentSettings s r = (Resolved (Some (globalSettings s)), s))
   \<and> ((\<forall>n \<in> set ns. \<not> isConfigurationChange n)
        \<and> \<not> hasConfigurationCapability (run pa replies initialServer ns) \<longrightarrow>
      fst (getDocumentSettings (run pa replies initialServer ns) r)
      = Resolved (Some \<lparr>maxNumberOfProblems = Some 1000\<rparr>))
   \<and> globalSettings initialServer = defaultSettings
   \<and> maxNumberOfProblems defaultSettings = Some 1000
   \<and> declaredDefault_maxNumberOfProblems = 100"
proof -
  have a: "\<not> hasConfigurationCapability s \<longrightarrow>
      getDocumentSettings s r = (Resolved (Some (globalSettings s)), s)"
    by (simp add: getDocumentSettings_unsupported)
  have g: "globalSettings initialServer = defaultSettings"
    by (simp add: initialServer_def)
  have b: "(\<forall>n \<in> set ns. \<not> isConfigurationChange n)
        \<and> \<not> hasConfigurationCapability (run pa replies initialServer ns) \<longrightarrow>
      fst (getDocumentSettings (run pa replies initialServer ns) r)
      = Resolved (Some \<lparr>maxNumberOfProblems = Some 1000\<rparr>)"
  proof
    assume h: "(\<forall>n \<in> set ns. \<not> isConfigurationChange n)
        \<and> \<not> hasConfigurationCapability (run pa replies initialServer ns)"
    then have "globalSettings (run pa replies initialServer ns) = defaultSettings"
      using run_globalSettings [of ns pa replies initialServer] g by simp
    then show "fst (getDocumentSettings (run pa replies initialServer ns) r)
      = Resolved (Some \<lparr>maxNumberOfProblems = Some 1000\<rparr>)"
      using h by (simp add: getDocumentSettings_unsupported defaultSettings_def)
  qed
  show ?thesis
    using a b g by (simp add: defaultSettings_def declaredDefault_maxNumberOfProblems_def)
qed

lemma sampleSession_unsupported:
  "\<not> hasConfigurationCapability (run positionAt_LF rejectAll initialServer sampleSession)"
  by code_simp

text \<open>The example session: no capability is declared and no configuration change arrives.\<close>

theorem getDocumentSettings_unsupported_default_witness:
  "filter isConfigurationChange sampleSession = []
   \<and> \<not> hasConfigurationCapability (run positionAt_LF rejectAll initialServer sampleSession)
   \<and> fst (getDocumentSettings (run positionAt_LF rejectAll initialServer sampleSession)
            ''file:///sample.spn'')
       = Resolved (Some \<lparr>maxNumberOfProblems = Some 1000\<rparr>)
   \<and> \<not> hasConfigurationCapability initialServer
   \<and> getDocumentSettings initialServer ''file:///sample.spn''
       = (Resolved (Some \<lparr>maxNumberOfProblems = Some 1000\<rparr>), initialServer)"
proof -
  have f: "filter isConfigurationChange sampleSession = []"
    by (simp add: sampleSession_def)
  have a: "\<forall>n \<in> set sampleSession. \<not> isConfigurationChange n"
    using f by (simp add: filter_empty_conv)
  have b: "\<not> hasConfigurationCapability (run positionAt_LF rejectAll initialServer sampleSession)"
    by (rule sampleSession_unsupported)
  have c: "\<not> hasConfigurationCapability initialServer"
      "globalSettings initialServer = \<lparr>maxNumberOfProblems = Some 1000\<rparr>"
    by (simp_all add: initialServer_def defaultSettings_def)
  note t = getDocumentSettings_unsupported_default [of initialServer "''file:///sample.spn''"
      sampleSession positionAt_LF rejectAll]
  have d: "fst (getDocumentSettings (run positionAt_LF rejectAll initialServer sampleSession)
            ''file:///sample.spn'')
       = Resolved (Some \<lparr>maxNumberOfProblems = Some 1000\<rparr>)"
    using t a b by blast
  have e: "getDocumentSettings initialServer ''file:///sample.spn''
       = (Resolved (Some \<lparr>maxNumberOfProblems = Some 1000\<rparr>), initialServer)"
    using t c by simp
  show ?thesis using f b c(1) d e by blast
qed

section \<open>Claims about completion\<close>

text \<open>
  C3.  The completion handler returns the same list of proposals whatever the document
  and the position of the request are.  The labels are those of the catalog in the
  order in which it is written, from \<open>EQU\<close>, \<open>MEM\<close>, \<open>RDA\<close> to the last one,
  \<open>CLR\<close>.
\<close>

theorem onCompletion_same_for_every_position:
  "onCompletion p = onCompletion q
   \<and> map label (onCompletion p)
       = [''EQU'', ''MEM'', ''RDA'', ''RMPA'', ''WRA'', ''WRAP'', ''RDAX'', ''RDFX'', ''WRAX'',
          ''WRHX'', ''WRLX'', ''MAXX'', ''ABSA'', ''MULX'', ''LOG'', ''EXP'', ''SOF'', ''AND'',
          ''OR'', ''XOR'', ''SKP'', ''WLDS'', ''WLDR'', ''JAM'', ''CHO'', ''NOP'', ''NOT'', ''CLR'']
   \<and> last (map label (onCompletion p)) = ''CLR''"
  by (simp add: onCompletion_def)

text \<open>
  C4.  Resolving a completion item twice gives what resolving it once gives, and an item
  whose \<open>data\<close> is neither the number 1 nor the number 2 is returned unchanged.
\<close>

theorem onCompletionResolve_idempotent:
  "onCompletionResolve (onCompletionResolve item) = onCompletionResolve item
   \<and> (data item \<noteq> Some (LSPNumber 1) \<and> data item \<noteq> Some (LSPNumber 2)
        \<longrightarrow> onCompletionResolve item = item)"
  by (simp add: onCompletionResolve_def)

text \<open>An item with the key 1, and an item whose key is the string \<open>1\<close>.\<close>

theorem onCompletionResolve_idempotent_witness:
  "(let keyed = \<lparr>label = ''x'', documentation = None, detail = None, kind = Some Keyword,
                  data = Some (LSPNumber 1)\<rparr>;
        other = \<lparr>label = ''y'', documentation = None, detail = Some ''d'', kind = None,
                  data = Some (LSPString ''1'')\<rparr>
    in onCompletionResolve keyed
         = \<lparr>label = ''x'', documentation = Some (PlainText ''TypeScript documentation''),
            detail = Some ''TypeScript details'', kind = Some Keyword, data = Some (LSPNumber 1)\<rparr>
       \<and> onCompletionResolve (onCompletionResolve keyed) = onCompletionResolve keyed
       \<and> data other \<noteq> Some (LSPNumber 1) \<and> data other \<noteq> Some (LSPNumber 2)
       \<and> onCompletionResolve other = other)"
proof -
  let ?keyed = "\<lparr>label = ''x'', documentation = None, detail = None, kind = Some Keyword,
                  data = Some (LSPNumber 1)\<rparr>"
  let ?other = "\<lparr>label = ''y'', documentation = None, detail = Some ''d'', kind = None,
                  data = Some (LSPString ''1'')\<rparr>"
  have a: "onCompletionResolve (onCompletionResolve ?keyed) = onCompletionResolve ?keyed"
    using onCompletionResolve_idempotent [of ?keyed] by blast
  have b: "data ?other \<noteq> Some (LSPNumber 1) \<and> data ?other \<noteq> Some (LSPNumber 2)"
    by simp
  have c: "onCompletionResolve ?other = ?other"
    using onCompletionResolve_idempotent [of ?other] b by blast
  have d: "onCompletionResolve ?keyed
         = \<lparr>label = ''x'', documentation = Some (PlainText ''TypeScript documentation''),
            detail = Some ''TypeScript details'', kind = Some Keyword, data = Some (LSPNumber 1)\<rparr>"
    by (simp add: onCompletionResolve_def)
  show ?thesis
    unfolding Let_def using a b c d by blast
qed

text \<open>
  C10.  No proposal of the catalog has a \<open>data\<close> property, so the keys 1 and 2 never
  occur in it, and resolving any proposal that the completion handler returns gives the
  proposal back: its detail and its documentation are what the catalog says.
\<close>

theorem onCompletionResolve_identity_on_catalog:
  "map onCompletionResolve (onCompletion p) = onCompletion p
   \<and> map data (onCompletion p) = replicate (length (onCompletion p)) None
   \<and> map detail (map onCompletionResolve (onCompletion p)) = map detail (onCompletion p)
   \<and> map documentation (map onCompletionResolve (onCompletion p))
       = map documentation (onCompletion p)"
proof -
  have d: "map data (onCompletion p) = replicate (length (onCompletion p)) None"
    by (simp add: onCompletion_def)
  have "\<forall>item \<in> set (onCompletion p). data item = None"
  proof
    fix item assume "item \<in> set (onCompletion p)"
    then have "data item \<in> set (map data (onCompletion p))" by simp
    then show "data item = None" unfolding d by simp
  qed
  then have "\<forall>item \<in> set (onCompletion p). onCompletionResolve item = item"
    by (simp add: onCompletionResolve_def)
  then have "map onCompletionResolve (onCompletion p) = onCompletion p"
    by (simp add: map_idI)
  then show ?thesis using d by simp
qed

end
